theory Spec2Isabelle
  imports Main "HOL-Library.Word"
begin

unbundle bit_operations_syntax

section \<open>The BTP session handler of matter.js\<close>

text \<open>
  A shallow embedding of the class \<^verbatim>\<open>BtpSessionHandler\<close> of matter.js (the module
  \<^verbatim>\<open>ble/BtpSessionHandler\<close>). JavaScript numbers are \<open>int\<close>, a \<^verbatim>\<open>ByteArray\<close> is a
  list of 8-bit words, an \<^verbatim>\<open>undefined\<close> field is \<open>None\<close>. A thrown exception, or a
  rejected promise, is a value of type \<open>error\<close>. The three callbacks given to the handler
  are observed through the list \<open>calls\<close> of the session, in the order in which they are
  invoked. The callback \<^verbatim>\<open>handleMatterMessagePayload\<close> runs code of the upper layer inside
  \<^verbatim>\<open>handleIncomingBleData\<close>, and that code can call into the handler: the functions
  whose names end in \<open>With\<close> take it as a parameter. The functions of the same names
  without \<open>With\<close> are these at the callback that returns at once. Apart from that
  callback, the entry points of the handler run one after the other, never interleaved: an
  \<^verbatim>\<open>await\<close> is a call that returns before anything else happens.
\<close>

type_synonym byte = "8 word"
type_synonym ByteArray = "byte list"

subsection \<open>Errors\<close>

text \<open>
  \<^verbatim>\<open>BtpProtocolError\<close> and \<^verbatim>\<open>BtpFlowError\<close> are the two classes of the source; the
  constructor argument names the \<^verbatim>\<open>throw\<close> statement. \<open>OtherError\<close> is any exception
  that is not an instance of \<^verbatim>\<open>BtpProtocolError\<close>: a failure of the codec, of a read
  past the end of a buffer, or of the transport.
\<close>

datatype protocol_error =
    UnsupportedVersion
  | NoCommonVersion
  | OversizedFrame
  | UnexpectedControlFrame
  | EmptyFrame
  | SequenceGap
  | InvalidAck
  | BeginWithoutEnd
  | SegmentWithoutBegin
  | SegmentWithoutPayload
  | EndWithoutBegin
  | LengthMismatch
  | AckTimeout

datatype other_error =
    BadHandshakeHeader
  | BadManagementOpcode
  | NoValidVersion
  | UnexpectedManagementOpcode
  | AckNumberNotExpected
  | AckNumberMissing
  | MessageLengthNotExpected
  | MessageLengthMissing
  | OutOfRange
  | TransportFailure nat

datatype error =
    BtpProtocolError protocol_error
  | BtpFlowError
  | OtherError other_error

fun isBtpProtocolError :: "error \<Rightarrow> bool" where
  "isBtpProtocolError (BtpProtocolError _) = True"
| "isBtpProtocolError _ = False"

subsection \<open>Frames\<close>

datatype BtpHandshakeRequest =
  BtpHandshakeRequest (versions: "int list") (handshakeMtu: int) (handshakeWindowSize: int)

record BtpHandshakeResponse =
  version :: int
  attMtu :: int
  windowSize :: int

record BtpHeader =
  isHandshakeRequest :: bool
  hasManagementOpcode :: bool
  hasAckNumber :: bool
  isBeginningSegment :: bool
  isContinuingSegment :: bool
  isEndingSegment :: bool

text \<open>The payload's field \<^verbatim>\<open>sequenceNumber\<close> is \<open>frameSequenceNumber\<close> here: the
  session has a field of the same name.\<close>

record BtpPayload =
  ackNumber :: "int option"
  frameSequenceNumber :: int
  messageLength :: "int option"
  segmentPayload :: ByteArray

record BtpPacket =
  header :: BtpHeader
  payload :: BtpPayload

subsection \<open>The codec\<close>

text \<open>
  \<^verbatim>\<open>BtpCodec\<close> is imported by the handler; its source is missing, only its tests
  are there. The handler is therefore modelled over any codec: a record of the four functions
  the handler calls. The instance \<open>BtpCodec\<close> below follows the specification and the
  byte sequences of \<^verbatim>\<open>test/codec/BtpTest.ts\<close>.
\<close>

record codec =
  decodeBtpHandshakeRequest :: "ByteArray \<Rightarrow> error + BtpHandshakeRequest"
  encodeBtpHandshakeResponse :: "BtpHandshakeResponse \<Rightarrow> ByteArray"
  decodeBtpPacket :: "ByteArray \<Rightarrow> error + BtpPacket"
  encodeBtpPacket :: "BtpPacket \<Rightarrow> error + ByteArray"

text \<open>
  Modelled from the spec: the reads and writes of \<^verbatim>\<open>DataReader\<close> and \<^verbatim>\<open>DataWriter\<close>
  that the codec is made of, whose sources are missing: the two nibbles of a byte, high
  nibble first, and unsigned integers of 8 and 16 bits, little endian.
\<close>

definition nibbles :: "byte \<Rightarrow> int list" where
  "nibbles b = [uint (drop_bit 4 b), uint (b AND 0x0f)]"

definition readUInt16 :: "byte \<Rightarrow> byte \<Rightarrow> int" where
  "readUInt16 lo hi = uint lo + 256 * uint hi"

definition writeUInt8 :: "int \<Rightarrow> byte" where
  "writeUInt8 n = word_of_int n"

definition writeUInt16 :: "int \<Rightarrow> ByteArray" where
  "writeUInt16 n = [word_of_int n, word_of_int (n div 256)]"

text \<open>
  Modelled from the spec: \<^verbatim>\<open>BtpCodec.decodeBtpHandshakeRequest\<close>, whose source is
  missing. The request has 9 bytes: the header byte \<open>0x65\<close>, the management opcode
  \<open>0x6c\<close>, four bytes of versions (two nibbles a byte, a zero nibble is absent), the
  ATT_MTU in two bytes, little endian, and the client window size. A wrong header, a wrong
  opcode and a request without a version are rejected.
\<close>

fun BtpCodec_decodeBtpHandshakeRequest :: "ByteArray \<Rightarrow> error + BtpHandshakeRequest" where
  "BtpCodec_decodeBtpHandshakeRequest (h # opc # v0 # v1 # v2 # v3 # m0 # m1 # w # _) =
     (if h \<noteq> 0x65 then Inl (OtherError BadHandshakeHeader)
      else if opc \<noteq> 0x6c then Inl (OtherError BadManagementOpcode)
      else let vs = filter (\<lambda>v. v \<noteq> 0) (concat (map nibbles [v0, v1, v2, v3]))
           in if vs = [] then Inl (OtherError NoValidVersion)
              else Inr (BtpHandshakeRequest vs (readUInt16 m0 m1) (uint w)))"
| "BtpCodec_decodeBtpHandshakeRequest _ = Inl (OtherError OutOfRange)"

text \<open>
  Modelled from the spec: \<^verbatim>\<open>BtpCodec.encodeBtpHandshakeResponse\<close>, whose source is
  missing. The response has 6 bytes: \<open>0x65\<close>, \<open>0x6c\<close>, the chosen version, the ATT_MTU
  in two bytes, little endian, and the window size.
\<close>

definition BtpCodec_encodeBtpHandshakeResponse :: "BtpHandshakeResponse \<Rightarrow> ByteArray" where
  "BtpCodec_encodeBtpHandshakeResponse r =
     [0x65, 0x6c, writeUInt8 (version r)] @ writeUInt16 (attMtu r) @ [writeUInt8 (windowSize r)]"

text \<open>
  Modelled from the spec: \<^verbatim>\<open>BtpCodec.decodeBtpPacket\<close>, whose source is missing. The
  flag byte has the bits \<open>0x40\<close> handshake, \<open>0x20\<close> management, \<open>0x08\<close> ack, \<open>0x04\<close>
  ending, \<open>0x01\<close> beginning, as the byte sequences of the specification and of the tests
  have them. The fields follow in the order opcode, ack number, sequence number, message
  length, payload; the continuing flag is recomputed as the negation of the beginning flag.
\<close>

definition decodeHeader :: "byte \<Rightarrow> BtpHeader" where
  "decodeHeader f =
     \<lparr> isHandshakeRequest = (f AND 0x40 \<noteq> 0),
       hasManagementOpcode = (f AND 0x20 \<noteq> 0),
       hasAckNumber = (f AND 0x08 \<noteq> 0),
       isBeginningSegment = (f AND 0x01 \<noteq> 0),
       isContinuingSegment = \<not> (f AND 0x01 \<noteq> 0),
       isEndingSegment = (f AND 0x04 \<noteq> 0) \<rparr>"

fun readOpcode :: "bool \<Rightarrow> ByteArray \<Rightarrow> error + ByteArray" where
  "readOpcode False bs = Inr bs"
| "readOpcode True [] = Inl (OtherError OutOfRange)"
| "readOpcode True (opc # bs) =
     (if opc \<noteq> 0x6c then Inl (OtherError UnexpectedManagementOpcode) else Inr bs)"

fun readAck :: "bool \<Rightarrow> ByteArray \<Rightarrow> error + (int option \<times> ByteArray)" where
  "readAck False bs = Inr (None, bs)"
| "readAck True [] = Inl (OtherError OutOfRange)"
| "readAck True (a # bs) = Inr (Some (uint a), bs)"

fun readSequence :: "ByteArray \<Rightarrow> error + (int \<times> ByteArray)" where
  "readSequence [] = Inl (OtherError OutOfRange)"
| "readSequence (n # bs) = Inr (uint n, bs)"

fun readLength :: "bool \<Rightarrow> ByteArray \<Rightarrow> error + (int option \<times> ByteArray)" where
  "readLength False bs = Inr (None, bs)"
| "readLength True (lo # hi # bs) = Inr (Some (readUInt16 lo hi), bs)"
| "readLength True _ = Inl (OtherError OutOfRange)"

fun BtpCodec_decodeBtpPacket :: "ByteArray \<Rightarrow> error + BtpPacket" where
  "BtpCodec_decodeBtpPacket [] = Inl (OtherError OutOfRange)"
| "BtpCodec_decodeBtpPacket (f # bs) =
     (let h = decodeHeader f in
      case readOpcode (hasManagementOpcode h) bs of Inl e \<Rightarrow> Inl e | Inr bs1 \<Rightarrow>
      case readAck (hasAckNumber h) bs1 of Inl e \<Rightarrow> Inl e | Inr (a, bs2) \<Rightarrow>
      case readSequence bs2 of Inl e \<Rightarrow> Inl e | Inr (n, bs3) \<Rightarrow>
      case readLength (isBeginningSegment h) bs3 of Inl e \<Rightarrow> Inl e | Inr (l, bs4) \<Rightarrow>
        Inr \<lparr> header = h,
              payload = \<lparr> ackNumber = a, frameSequenceNumber = n, messageLength = l,
                          segmentPayload = bs4 \<rparr> \<rparr>)"

text \<open>
  Modelled from the spec: \<^verbatim>\<open>BtpCodec.encodeBtpPacket\<close>, whose source is missing. The
  ack number is present iff the ack flag is set and the message length iff the beginning
  flag is set; a mismatch is an error. The bytes are the flags, the ack number, the
  sequence number, the message length and the payload.
\<close>

definition encodeHeader :: "BtpHeader \<Rightarrow> byte" where
  "encodeHeader h =
     (if isHandshakeRequest h then 0x40 else 0) OR
     (if hasManagementOpcode h then 0x20 else 0) OR
     (if hasAckNumber h then 0x08 else 0) OR
     (if isEndingSegment h then 0x04 else 0) OR
     (if isContinuingSegment h then 0x02 else 0) OR
     (if isBeginningSegment h then 0x01 else 0)"

definition BtpCodec_encodeBtpPacket :: "BtpPacket \<Rightarrow> error + ByteArray" where
  "BtpCodec_encodeBtpPacket p =
     (let h = header p; b = payload p in
      if ackNumber b \<noteq> None \<and> \<not> hasAckNumber h then Inl (OtherError AckNumberNotExpected)
      else if ackNumber b = None \<and> hasAckNumber h then Inl (OtherError AckNumberMissing)
      else if messageLength b \<noteq> None \<and> \<not> isBeginningSegment h
        then Inl (OtherError MessageLengthNotExpected)
      else if messageLength b = None \<and> isBeginningSegment h
        then Inl (OtherError MessageLengthMissing)
      else Inr ([encodeHeader h]
             @ (case ackNumber b of None \<Rightarrow> [] | Some a \<Rightarrow> [writeUInt8 a])
             @ [writeUInt8 (frameSequenceNumber b)]
             @ (case messageLength b of None \<Rightarrow> [] | Some l \<Rightarrow> writeUInt16 l)
             @ segmentPayload b))"

definition BtpCodec :: codec where
  "BtpCodec =
     \<lparr> decodeBtpHandshakeRequest = BtpCodec_decodeBtpHandshakeRequest,
       encodeBtpHandshakeResponse = BtpCodec_encodeBtpHandshakeResponse,
       decodeBtpPacket = BtpCodec_decodeBtpPacket,
       encodeBtpPacket = BtpCodec_encodeBtpPacket \<rparr>"

subsection \<open>Timers, readers and the session\<close>

text \<open>
  Modelled from the spec: the timer that \<^verbatim>\<open>Time.getTimer\<close> returns, whose source is
  missing: a capability with \<^verbatim>\<open>start\<close>, \<^verbatim>\<open>stop\<close> and \<^verbatim>\<open>isRunning\<close>. The field
  \<open>starts\<close> counts the calls of \<^verbatim>\<open>start\<close>, so that stopping and starting a running
  timer again can be told from leaving it alone.
\<close>

record Timer =
  isRunning :: bool
  starts :: nat

definition Timer_new :: Timer where
  "Timer_new = \<lparr> isRunning = False, starts = 0 \<rparr>"

definition Timer_start :: "Timer \<Rightarrow> Timer" where
  "Timer_start t = t\<lparr> isRunning := True, starts := Suc (starts t) \<rparr>"

definition Timer_stop :: "Timer \<Rightarrow> Timer" where
  "Timer_stop t = t\<lparr> isRunning := False \<rparr>"

text \<open>
  Modelled from the spec: the \<^verbatim>\<open>DataReader\<close> that wraps a queued message, whose source
  is missing: a cursor over the bytes, from which up to a given number of bytes is read.
\<close>

record DataReader =
  buffer :: ByteArray
  offset :: nat

definition DataReader_new :: "ByteArray \<Rightarrow> DataReader" where
  "DataReader_new bs = \<lparr> buffer = bs, offset = 0 \<rparr>"

definition getLength :: "DataReader \<Rightarrow> int" where
  "getLength r = int (length (buffer r))"

definition getRemainingBytesCount :: "DataReader \<Rightarrow> int" where
  "getRemainingBytesCount r = int (length (buffer r)) - int (offset r)"

definition readByteArray :: "int \<Rightarrow> DataReader \<Rightarrow> ByteArray \<times> DataReader" where
  "readByteArray n r =
     (take (nat n) (drop (offset r) (buffer r)), r\<lparr> offset := offset r + nat n \<rparr>)"

datatype callback =
    WriteBle ByteArray
  | DisconnectBle
  | HandleMatterMessagePayload ByteArray

record session =
  fragmentSize :: int
  clientWindowSize :: int
  currentIncomingSegmentedMsgLength :: "int option"
  currentIncomingSegmentedPayload :: "ByteArray option"
  prevIncomingSequenceNumber :: int
  prevIncomingAckNumber :: int
  ackReceiveTimer :: Timer
  sequenceNumber :: int
  prevAckedSequenceNumber :: int
  queuedOutgoingMatterMessages :: "DataReader list"
  sendInProgress :: bool
  sendAckTimer :: Timer
  isActive :: bool
  calls :: "callback list"

definition SUPPORTED_BTP_VERSIONS :: "int list" where
  "SUPPORTED_BTP_VERSIONS = [4]"

definition MINIMUM_ATT_MTU :: int where
  "MINIMUM_ATT_MTU = 23"

definition MAXIMUM_BTP_MTU :: int where
  "MAXIMUM_BTP_MTU = 247"

definition MAXIMUM_WINDOW_SIZE :: int where
  "MAXIMUM_WINDOW_SIZE = 255"

text \<open>The constructor: the field initialisers, the check of the version, and the start of
  the ack-receive timer. \<open>cs\<close> are the callbacks invoked before the session exists.\<close>

definition initialSession :: "int \<Rightarrow> int \<Rightarrow> callback list \<Rightarrow> session" where
  "initialSession fragSize winSize cs =
     \<lparr> fragmentSize = fragSize,
       clientWindowSize = winSize,
       currentIncomingSegmentedMsgLength = None,
       currentIncomingSegmentedPayload = None,
       prevIncomingSequenceNumber = 255,
       prevIncomingAckNumber = - 1,
       ackReceiveTimer = Timer_start Timer_new,
       sequenceNumber = 0,
       prevAckedSequenceNumber = - 1,
       queuedOutgoingMatterMessages = [],
       sendInProgress = False,
       sendAckTimer = Timer_new,
       isActive = True,
       calls = cs \<rparr>"

definition BtpSessionHandler_new ::
    "int \<Rightarrow> int \<Rightarrow> int \<Rightarrow> callback list \<Rightarrow> error + session" where
  "BtpSessionHandler_new btpVersion fragSize winSize cs =
     (if btpVersion \<noteq> 4 then Inl (BtpProtocolError UnsupportedVersion)
      else Inr (initialSession fragSize winSize cs))"

subsection \<open>The handshake\<close>

definition chooseAttMtu :: "int option \<Rightarrow> int \<Rightarrow> int" where
  "chooseAttMtu maxDataSize hsMtu =
     (case maxDataSize of
        None \<Rightarrow> MINIMUM_ATT_MTU
      | Some m \<Rightarrow>
          (let m3 = m + 3 in
           if m3 > MINIMUM_ATT_MTU then
             (if hsMtu \<le> MINIMUM_ATT_MTU then min m3 MAXIMUM_BTP_MTU
              else min hsMtu (min m3 MAXIMUM_BTP_MTU))
           else MINIMUM_ATT_MTU))"

text \<open>
  \<^verbatim>\<open>createFromHandshakeRequest\<close>. \<open>writeBleCallback\<close> tells whether the write of the
  given bytes fails. A success returns the session, whose \<open>calls\<close> hold the callbacks
  invoked until then. A failure returns the error, the callbacks invoked until then, and
  the session that the source has constructed by then, if any: the constructor runs before
  the handshake response is written, so a failed write leaves behind a session that the
  caller never gets, with its ack-receive timer started.
\<close>

definition createFromHandshakeRequest ::
    "codec \<Rightarrow> int option \<Rightarrow> ByteArray \<Rightarrow> (ByteArray \<Rightarrow> error option)
       \<Rightarrow> (error \<times> callback list \<times> session option) + session" where
  "createFromHandshakeRequest C maxDataSize handshakeRequestPayload writeBleCallback =
     (case decodeBtpHandshakeRequest C handshakeRequestPayload of
        Inl e \<Rightarrow> Inl (e, [], None)
      | Inr handshakeRequest \<Rightarrow>
          (case find (\<lambda>v. v \<in> set (versions handshakeRequest)) SUPPORTED_BTP_VERSIONS of
             None \<Rightarrow> Inl (BtpProtocolError NoCommonVersion, [DisconnectBle], None)
           | Some v \<Rightarrow>
               (let mtu = chooseAttMtu maxDataSize (handshakeMtu handshakeRequest);
                    fragSize = mtu - 3;
                    winSize = min MAXIMUM_WINDOW_SIZE (handshakeWindowSize handshakeRequest);
                    handshakeResponse = encodeBtpHandshakeResponse C
                      \<lparr> version = v, attMtu = mtu, windowSize = winSize \<rparr>
                in case BtpSessionHandler_new v fragSize winSize [] of
                     Inl e \<Rightarrow> Inl (e, [], None)
                   | Inr btpSession \<Rightarrow>
                       (case writeBleCallback handshakeResponse of
                          Some e \<Rightarrow>
                            Inl (e, [WriteBle handshakeResponse],
                                 Some (btpSession\<lparr> calls := [WriteBle handshakeResponse] \<rparr>))
                        | None \<Rightarrow>
                            Inr (btpSession\<lparr> calls := [WriteBle handshakeResponse] \<rparr>)))))"

subsection \<open>Closing\<close>

definition close :: "session \<Rightarrow> session" where
  "close s =
     (let s1 = s\<lparr> ackReceiveTimer := Timer_stop (ackReceiveTimer s) \<rparr>;
          s2 = s1\<lparr> sendAckTimer := Timer_stop (sendAckTimer s1) \<rparr>
      in if isActive s2
         then s2\<lparr> isActive := False, calls := calls s2 @ [DisconnectBle] \<rparr>
         else s2)"

subsection \<open>The inbound path\<close>

text \<open>The remainder operator of JavaScript truncates towards zero.\<close>

definition jsRem :: "int \<Rightarrow> int \<Rightarrow> int" where
  "jsRem a b = (if a < 0 then - ((- a) mod \<bar>b\<bar>) else a mod \<bar>b\<bar>)"

text \<open>
  The body of the \<^verbatim>\<open>try\<close> block of \<^verbatim>\<open>handleIncomingBleData\<close>, in four parts, each
  of which returns the exception it throws, if any, and the session as it is then: the
  checks of the frame and of its sequence number, the ack number, the segment, and the end
  of a message.
\<close>

definition checkFrame :: "session \<Rightarrow> BtpPacket \<Rightarrow> error option \<times> session" where
  "checkFrame s p =
     (if isHandshakeRequest (header p) \<or> hasManagementOpcode (header p)
        then (Some (BtpProtocolError UnexpectedControlFrame), s)
      else if length (segmentPayload (payload p)) = 0 \<and> \<not> hasAckNumber (header p)
        then (Some (BtpProtocolError EmptyFrame), s)
      else if frameSequenceNumber (payload p) \<noteq> jsRem (prevIncomingSequenceNumber s + 1) 256
        then (Some (BtpProtocolError SequenceGap), s)
      else
        (let s1 = s\<lparr> prevIncomingSequenceNumber := frameSequenceNumber (payload p) \<rparr>;
             s2 = (if \<not> isRunning (sendAckTimer s1)
                   then s1\<lparr> sendAckTimer := Timer_start (sendAckTimer s1) \<rparr> else s1)
         in (None, s2)))"

definition handleAck :: "session \<Rightarrow> BtpPacket \<Rightarrow> error option \<times> session" where
  "handleAck s p =
     (case (hasAckNumber (header p), ackNumber (payload p)) of
        (True, Some a) \<Rightarrow>
          (if a \<le> prevIncomingAckNumber s \<or> a > sequenceNumber s
             then (Some (BtpProtocolError InvalidAck), s)
           else
             (let s1 = s\<lparr> ackReceiveTimer := Timer_stop (ackReceiveTimer s) \<rparr>;
                  s2 = s1\<lparr> prevIncomingAckNumber := a \<rparr>;
                  s3 = (if a < sequenceNumber s2
                        then s2\<lparr> ackReceiveTimer := Timer_start (ackReceiveTimer s2) \<rparr>
                        else s2)
              in (None, s3)))
      | _ \<Rightarrow> (None, s))"

definition handleSegment :: "session \<Rightarrow> BtpPacket \<Rightarrow> error option \<times> session" where
  "handleSegment s p =
     (if isBeginningSegment (header p) then
        (if currentIncomingSegmentedPayload s \<noteq> None
           then (Some (BtpProtocolError BeginWithoutEnd), s)
         else (None, s\<lparr> currentIncomingSegmentedMsgLength := messageLength (payload p),
                         currentIncomingSegmentedPayload := Some (segmentPayload (payload p)) \<rparr>))
      else if isContinuingSegment (header p) \<or> isEndingSegment (header p) then
        (case currentIncomingSegmentedPayload s of
           None \<Rightarrow> (Some (BtpProtocolError SegmentWithoutBegin), s)
         | Some cur \<Rightarrow>
             (if length (segmentPayload (payload p)) = 0
                then (Some (BtpProtocolError SegmentWithoutPayload), s)
              else (None, s\<lparr> currentIncomingSegmentedPayload :=
                                 Some (cur @ segmentPayload (payload p)) \<rparr>)))
      else (None, s))"

text \<open>
  The end of a message calls \<^verbatim>\<open>handleMatterMessagePayload\<close>, as the last statement of
  the \<^verbatim>\<open>try\<close> block. The callback gets the message and runs on the session as it is
  then, with the reassembly cleared; it returns the exception it throws, if any, and the
  session as it leaves it.
\<close>

type_synonym deliver = "ByteArray \<Rightarrow> session \<Rightarrow> error option \<times> session"

definition handleEndingWith :: "deliver \<Rightarrow> session \<Rightarrow> BtpPacket \<Rightarrow> error option \<times> session" where
  "handleEndingWith handleMatterMessagePayload s p =
     (if isEndingSegment (header p) then
        (case (currentIncomingSegmentedMsgLength s, currentIncomingSegmentedPayload s) of
           (Some len, Some cur) \<Rightarrow>
             (if int (length cur) \<noteq> len
                then (Some (BtpProtocolError LengthMismatch), s)
              else handleMatterMessagePayload cur
                     (s\<lparr> currentIncomingSegmentedMsgLength := None,
                         currentIncomingSegmentedPayload := None,
                         calls := calls s @ [HandleMatterMessagePayload cur] \<rparr>))
         | _ \<Rightarrow> (Some (BtpProtocolError EndWithoutBegin), s))
      else (None, s))"

text \<open>Sequencing: the first exception ends the block.\<close>

definition andThen ::
    "error option \<times> session \<Rightarrow> (session \<Rightarrow> error option \<times> session)
       \<Rightarrow> error option \<times> session" where
  "andThen r f = (case r of (None, s) \<Rightarrow> f s | (Some e, s) \<Rightarrow> (Some e, s))"

definition handleBtpPacketWith :: "deliver \<Rightarrow> session \<Rightarrow> BtpPacket \<Rightarrow> error option \<times> session"
where
  "handleBtpPacketWith handleMatterMessagePayload s p =
     andThen (andThen (andThen (checkFrame s p)
       (\<lambda>s1. handleAck s1 p)) (\<lambda>s2. handleSegment s2 p))
       (\<lambda>s3. handleEndingWith handleMatterMessagePayload s3 p)"

definition handleIncomingBleData_tryWith ::
    "deliver \<Rightarrow> codec \<Rightarrow> session \<Rightarrow> ByteArray \<Rightarrow> error option \<times> session" where
  "handleIncomingBleData_tryWith handleMatterMessagePayload C s data =
     (if int (length data) > fragmentSize s \<and> int (length data) > fragmentSize s + 3
        then (Some (BtpProtocolError OversizedFrame), s)
      else case decodeBtpPacket C data of
             Inl e \<Rightarrow> (Some e, s)
           | Inr btpPacket \<Rightarrow> handleBtpPacketWith handleMatterMessagePayload s btpPacket)"

text \<open>
  \<^verbatim>\<open>handleIncomingBleData\<close>: the \<^verbatim>\<open>catch\<close> block closes the session and throws the
  exception again unless it is a \<^verbatim>\<open>BtpProtocolError\<close>. The first component of the result
  is the exception that reaches the caller.
\<close>

definition handleIncomingBleDataWith ::
    "deliver \<Rightarrow> codec \<Rightarrow> session \<Rightarrow> ByteArray \<Rightarrow> error option \<times> session" where
  "handleIncomingBleDataWith handleMatterMessagePayload C s data =
     (case handleIncomingBleData_tryWith handleMatterMessagePayload C s data of
        (None, s1) \<Rightarrow> (None, s1)
      | (Some e, s1) \<Rightarrow>
          (if \<not> isBtpProtocolError e then (Some e, close s1) else (None, close s1)))"

text \<open>
  The callback that returns at once, without calling into the handler, and the inbound
  path with it: the call of \<^verbatim>\<open>handleMatterMessagePayload\<close> is then no more than its
  entry in \<open>calls\<close>.
\<close>

definition returnsAtOnce :: deliver where
  "returnsAtOnce m s = (None, s)"

definition handleEnding :: "session \<Rightarrow> BtpPacket \<Rightarrow> error option \<times> session" where
  "handleEnding s p = handleEndingWith returnsAtOnce s p"

definition handleBtpPacket :: "session \<Rightarrow> BtpPacket \<Rightarrow> error option \<times> session" where
  "handleBtpPacket s p = handleBtpPacketWith returnsAtOnce s p"

definition handleIncomingBleData_try ::
    "codec \<Rightarrow> session \<Rightarrow> ByteArray \<Rightarrow> error option \<times> session" where
  "handleIncomingBleData_try C s data = handleIncomingBleData_tryWith returnsAtOnce C s data"

definition handleIncomingBleData ::
    "codec \<Rightarrow> session \<Rightarrow> ByteArray \<Rightarrow> error option \<times> session" where
  "handleIncomingBleData C s data = handleIncomingBleDataWith returnsAtOnce C s data"

subsection \<open>The outbound path\<close>

definition getNextSequenceNumber :: "session \<Rightarrow> int \<times> session" where
  "getNextSequenceNumber s =
     (let s1 = s\<lparr> sequenceNumber := sequenceNumber s + 1 \<rparr>;
          s2 = (if sequenceNumber s1 > 255 then s1\<lparr> sequenceNumber := 0 \<rparr> else s1)
      in (sequenceNumber s2, s2))"

text \<open>The test that guards \<^verbatim>\<open>processSendQueue\<close> and ends its loop.\<close>

definition windowFull :: "session \<Rightarrow> bool" where
  "windowFull s \<longleftrightarrow> sequenceNumber s - prevIncomingAckNumber s > clientWindowSize s - 1"

text \<open>
  One pass through the body of the \<^verbatim>\<open>while\<close> loop of \<^verbatim>\<open>processSendQueue\<close>, up to
  the test of the window, in two parts. \<open>cutSegment\<close> is the first part, down to the packet:
  it decides on the ack, cuts the segment from the first queued message and takes the next
  sequence number. It returns the packet, whether the segment ends its message, and the
  session.
\<close>

definition cutSegment ::
    "session \<Rightarrow> DataReader \<Rightarrow> DataReader list \<Rightarrow> BtpPacket \<times> bool \<times> session" where
  "cutSegment s currentProcessedMessage rest =
     (let remainingMessageLength = getRemainingBytesCount currentProcessedMessage;
          hasAck = (prevIncomingSequenceNumber s > prevAckedSequenceNumber s);
          s1 = (if hasAck
                then s\<lparr> prevAckedSequenceNumber := prevIncomingSequenceNumber s,
                        sendAckTimer := Timer_stop (sendAckTimer s) \<rparr>
                else s);
          isBeginning = (remainingMessageLength = getLength currentProcessedMessage);
          btpHeaderLength = 2 + (if isBeginning then 2 else 0) + (if hasAck then 1 else 0);
          isEnding = (remainingMessageLength \<le> fragmentSize s1 - btpHeaderLength);
          packetHeader = \<lparr> isHandshakeRequest = False,
                           hasManagementOpcode = False,
                           hasAckNumber = hasAck,
                           isBeginningSegment = isBeginning,
                           isContinuingSegment = \<not> isBeginning,
                           isEndingSegment = isEnding \<rparr>;
          segment = fst (readByteArray (fragmentSize s1 - btpHeaderLength)
                      currentProcessedMessage);
          reader = snd (readByteArray (fragmentSize s1 - btpHeaderLength)
                      currentProcessedMessage);
          s2 = s1\<lparr> queuedOutgoingMatterMessages := reader # rest \<rparr>;
          ack = (if hasAck then Some (prevIncomingSequenceNumber s2) else None);
          seqNo = fst (getNextSequenceNumber s2);
          s3 = snd (getNextSequenceNumber s2)
      in (\<lparr> header = packetHeader,
            payload = \<lparr> ackNumber = ack,
                        frameSequenceNumber = seqNo,
                        messageLength = (if isBeginning
                           then Some remainingMessageLength else None),
                        segmentPayload = segment \<rparr> \<rparr>,
          isEnding, s3))"

text \<open>
  The second part encodes the packet, writes it, starts the ack-receive timer and drops
  the message when the segment was its last. The queue is not empty when the body runs;
  on an empty queue nothing happens.
\<close>

definition writeSegment ::
    "codec \<Rightarrow> (ByteArray \<Rightarrow> error option) \<Rightarrow> BtpPacket \<Rightarrow> bool \<Rightarrow> session
       \<Rightarrow> error option \<times> session" where
  "writeSegment C writeBleCallback btpPacket isEnding s3 =
     (case encodeBtpPacket C btpPacket of
        Inl e \<Rightarrow> (Some e, s3)
      | Inr packet \<Rightarrow>
          (let s4 = s3\<lparr> calls := calls s3 @ [WriteBle packet] \<rparr>
           in case writeBleCallback packet of
                Some e \<Rightarrow> (Some e, s4)
              | None \<Rightarrow>
                  (let s5 = (if \<not> isRunning (ackReceiveTimer s4)
                             then s4\<lparr> ackReceiveTimer := Timer_start (ackReceiveTimer s4) \<rparr>
                             else s4);
                       s6 = (if isEnding
                             then s5\<lparr> queuedOutgoingMatterMessages :=
                                         tl (queuedOutgoingMatterMessages s5) \<rparr>
                             else s5)
                   in (None, s6))))"

definition sendSegment ::
    "codec \<Rightarrow> (ByteArray \<Rightarrow> error option) \<Rightarrow> session \<Rightarrow> error option \<times> session" where
  "sendSegment C writeBleCallback s =
     (case queuedOutgoingMatterMessages s of
        [] \<Rightarrow> (None, s)
      | currentProcessedMessage # rest \<Rightarrow>
          (case cutSegment s currentProcessedMessage rest of
             (btpPacket, isEnding, s3) \<Rightarrow>
               writeSegment C writeBleCallback btpPacket isEnding s3))"

text \<open>
  The \<^verbatim>\<open>while\<close> loop. It need not end (a fragment size that leaves no room for a
  payload never finishes a message), so the result is an option: \<open>None\<close> when the loop
  runs forever.
\<close>

partial_function (option) sendLoop ::
    "codec \<Rightarrow> (ByteArray \<Rightarrow> error option) \<Rightarrow> session \<Rightarrow> (error option \<times> session) option"
where
  "sendLoop C writeBleCallback s =
     (if queuedOutgoingMatterMessages s = [] then Some (None, s)
      else if fst (sendSegment C writeBleCallback s) \<noteq> None
        then Some (sendSegment C writeBleCallback s)
      else if windowFull (snd (sendSegment C writeBleCallback s))
        then Some (None, snd (sendSegment C writeBleCallback s))
      else sendLoop C writeBleCallback (snd (sendSegment C writeBleCallback s)))"

text \<open>\<^verbatim>\<open>processSendQueue\<close>: an exception leaves \<^verbatim>\<open>sendInProgress\<close> set.\<close>

definition processSendQueue ::
    "codec \<Rightarrow> (ByteArray \<Rightarrow> error option) \<Rightarrow> session \<Rightarrow> (error option \<times> session) option"
where
  "processSendQueue C writeBleCallback s =
     (if sendInProgress s then Some (None, s)
      else if windowFull s then Some (None, s)
      else if queuedOutgoingMatterMessages s = [] then Some (None, s)
      else map_option
             (\<lambda>(r, s1). if r = None then (None, s1\<lparr> sendInProgress := False \<rparr>) else (r, s1))
             (sendLoop C writeBleCallback (s\<lparr> sendInProgress := True \<rparr>)))"

definition sendMatterMessage ::
    "codec \<Rightarrow> (ByteArray \<Rightarrow> error option) \<Rightarrow> session \<Rightarrow> ByteArray
       \<Rightarrow> (error option \<times> session) option"
where
  "sendMatterMessage C writeBleCallback s data =
     (if length data = 0 then Some (Some BtpFlowError, s)
      else processSendQueue C writeBleCallback
             (s\<lparr> queuedOutgoingMatterMessages :=
                   queuedOutgoingMatterMessages s @ [DataReader_new data] \<rparr>))"

text \<open>
  A call of \<^verbatim>\<open>sendMatterMessage\<close> that is not awaited, as the deliver callback of the
  test \<^verbatim>\<open>handles a correct One segment long Matter Message\<close> makes it: an
  \<^verbatim>\<open>async\<close> function runs on the stack of its caller up to its first \<^verbatim>\<open>await\<close>
  that has to wait, and goes on only after the caller has returned. For
  \<^verbatim>\<open>sendMatterMessage\<close> this is the call of \<^verbatim>\<open>writeBleCallback\<close> in the first pass of
  the loop of \<^verbatim>\<open>processSendQueue\<close>, or one of the three \<^verbatim>\<open>return\<close> statements
  before the loop. \<open>sendMatterMessage_started\<close> is the session at that point; an
  exception rejects the promise and is not thrown to the caller.
\<close>

definition sendMatterMessage_started :: "codec \<Rightarrow> session \<Rightarrow> ByteArray \<Rightarrow> session" where
  "sendMatterMessage_started C s data =
     (if length data = 0 then s
      else
        (let s1 = s\<lparr> queuedOutgoingMatterMessages :=
                        queuedOutgoingMatterMessages s @ [DataReader_new data] \<rparr>
         in if sendInProgress s1 then s1
            else if windowFull s1 then s1
            else (case queuedOutgoingMatterMessages s1 of
                    [] \<Rightarrow> s1
                  | currentProcessedMessage # rest \<Rightarrow>
                      (case cutSegment (s1\<lparr> sendInProgress := True \<rparr>)
                              currentProcessedMessage rest of
                         (btpPacket, isEnding, s3) \<Rightarrow>
                           (case encodeBtpPacket C btpPacket of
                              Inl e \<Rightarrow> s3
                            | Inr packet \<Rightarrow> s3\<lparr> calls := calls s3 @ [WriteBle packet] \<rparr>)))))"

subsection \<open>The timer callbacks\<close>

definition btpSendAckTimeoutTriggered ::
    "codec \<Rightarrow> (ByteArray \<Rightarrow> error option) \<Rightarrow> session \<Rightarrow> error option \<times> session" where
  "btpSendAckTimeoutTriggered C writeBleCallback s =
     (if prevIncomingSequenceNumber s > prevAckedSequenceNumber s then
        (let ack = prevIncomingSequenceNumber s;
             (seqNo, s1) = getNextSequenceNumber s;
             btpPacket = \<lparr> header = \<lparr> isHandshakeRequest = False,
                                      hasManagementOpcode = False,
                                      hasAckNumber = True,
                                      isBeginningSegment = False,
                                      isContinuingSegment = False,
                                      isEndingSegment = False \<rparr>,
                           payload = \<lparr> ackNumber = Some ack,
                                       frameSequenceNumber = seqNo,
                                       messageLength = None,
                                       segmentPayload = [] \<rparr> \<rparr>;
             s2 = s1\<lparr> prevAckedSequenceNumber := prevIncomingSequenceNumber s1 \<rparr>
         in case encodeBtpPacket C btpPacket of
              Inl e \<Rightarrow> (Some e, s2)
            | Inr packet \<Rightarrow>
                (let s3 = s2\<lparr> calls := calls s2 @ [WriteBle packet] \<rparr>
                 in case writeBleCallback packet of
                      Some e \<Rightarrow> (Some e, s3)
                    | None \<Rightarrow>
                        (None, if \<not> isRunning (ackReceiveTimer s3)
                               then s3\<lparr> ackReceiveTimer := Timer_start (ackReceiveTimer s3) \<rparr>
                               else s3)))
      else (None, s))"

definition btpAckTimeoutTriggered :: "session \<Rightarrow> error option \<times> session" where
  "btpAckTimeoutTriggered s =
     (if prevIncomingAckNumber s \<noteq> sequenceNumber s
        then (Some (BtpProtocolError AckTimeout), close s)
      else (None, s))"

subsection \<open>Observations\<close>

text \<open>The number of frames sent and not acknowledged, as the source counts them.\<close>

definition unacked :: "session \<Rightarrow> int" where
  "unacked s = sequenceNumber s - prevIncomingAckNumber s"

text \<open>What the inbound path leaves alone: the fields of the outbound path and the
  liveness flag.\<close>

definition sameOutbound :: "session \<Rightarrow> session \<Rightarrow> bool" where
  "sameOutbound s t \<longleftrightarrow>
     fragmentSize t = fragmentSize s \<and> clientWindowSize t = clientWindowSize s \<and>
     sequenceNumber t = sequenceNumber s \<and>
     prevAckedSequenceNumber t = prevAckedSequenceNumber s \<and>
     queuedOutgoingMatterMessages t = queuedOutgoingMatterMessages s \<and>
     sendInProgress t = sendInProgress s \<and> isActive t = isActive s"

fun isWriteBle :: "callback \<Rightarrow> bool" where
  "isWriteBle (WriteBle _) = True"
| "isWriteBle _ = False"

fun isDisconnectBle :: "callback \<Rightarrow> bool" where
  "isDisconnectBle DisconnectBle = True"
| "isDisconnectBle _ = False"

text \<open>The size of the queue: the bytes not yet sent, and one for each message. Each pass
  of the loop of \<^verbatim>\<open>processSendQueue\<close> makes it smaller when a fragment has room for a
  payload.\<close>

definition queuedBytes :: "session \<Rightarrow> nat" where
  "queuedBytes s =
     sum_list (map (\<lambda>r. Suc (nat (getRemainingBytesCount r))) (queuedOutgoingMatterMessages s))"

subsection \<open>The life of a session\<close>

text \<open>The entry points of a session and the two timer callbacks, and a session that
  performs a list of them one after the other. The result is \<open>None\<close> when a send does not
  return.\<close>

datatype operation =
    HandleIncomingBleData ByteArray
  | SendMatterMessage ByteArray
  | Close
  | SendAckTimeout
  | AckTimeout

fun perform ::
    "codec \<Rightarrow> (ByteArray \<Rightarrow> error option) \<Rightarrow> session \<Rightarrow> operation \<Rightarrow> session option" where
  "perform C w s (HandleIncomingBleData d) = Some (snd (handleIncomingBleData C s d))"
| "perform C w s (SendMatterMessage d) = map_option snd (sendMatterMessage C w s d)"
| "perform C w s Close = Some (close s)"
| "perform C w s SendAckTimeout = Some (snd (btpSendAckTimeoutTriggered C w s))"
| "perform C w s AckTimeout = Some (snd (btpAckTimeoutTriggered s))"

fun performAll ::
    "codec \<Rightarrow> (ByteArray \<Rightarrow> error option) \<Rightarrow> session \<Rightarrow> operation list \<Rightarrow> session option"
where
  "performAll C w s [] = Some s"
| "performAll C w s (x # xs) =
     (case perform C w s x of None \<Rightarrow> None | Some t \<Rightarrow> performAll C w t xs)"

text \<open>The calls of \<^verbatim>\<open>disconnectBle\<close> so far.\<close>

definition disconnects :: "session \<Rightarrow> callback list" where
  "disconnects s = filter isDisconnectBle (calls s)"

text \<open>What the outbound path leaves alone: the liveness flag and the calls of
  \<^verbatim>\<open>disconnectBle\<close>.\<close>

definition sameLiveness :: "session \<Rightarrow> session \<Rightarrow> bool" where
  "sameLiveness s t \<longleftrightarrow> isActive t = isActive s \<and> disconnects t = disconnects s"

text \<open>The liveness flag and the calls of \<^verbatim>\<open>disconnectBle\<close> go together: none while the
  session is active, one when it is not.\<close>

definition closedOnce :: "session \<Rightarrow> bool" where
  "closedOnce s \<longleftrightarrow> disconnects s = (if isActive s then [] else [DisconnectBle])"

subsection \<open>Sequences of frames\<close>

text \<open>A session that receives a list of buffers, one call of \<^verbatim>\<open>handleIncomingBleData\<close>
  each.\<close>

definition receiveAll :: "codec \<Rightarrow> session \<Rightarrow> ByteArray list \<Rightarrow> session" where
  "receiveAll C s ds = foldl (\<lambda>t d. snd (handleIncomingBleData C t d)) s ds"











subsection \<open>What a call hands over\<close>

text \<open>The message handed to \<^verbatim>\<open>handleMatterMessagePayload\<close> between the sessions \<open>s\<close>
  and \<open>t\<close>, when that is the one callback invoked between them.\<close>

definition delivered :: "session \<Rightarrow> session \<Rightarrow> ByteArray option" where
  "delivered s t =
     (case drop (length (calls s)) (calls t) of
        [HandleMatterMessagePayload m] \<Rightarrow> Some m
      | _ \<Rightarrow> None)"

section \<open>Properties\<close>

subsection \<open>The handshake\<close>

lemmas codec_simps = BtpCodec_def BtpCodec_encodeBtpHandshakeResponse_def writeUInt8_def
  writeUInt16_def nibbles_def readUInt16_def

lemmas constant_simps = SUPPORTED_BTP_VERSIONS_def MINIMUM_ATT_MTU_def MAXIMUM_BTP_MTU_def
  MAXIMUM_WINDOW_SIZE_def


text \<open>The codec of the model on the byte sequences of \<^verbatim>\<open>test/codec/BtpTest.ts\<close>.\<close>

lemma BtpCodec_test_vectors:
  "decodeBtpHandshakeRequest BtpCodec [0x65, 0x6c, 0x04, 0x00, 0x00, 0x00, 0xb9, 0x00, 0x06]
     = Inr (BtpHandshakeRequest [4] 185 6)"
  "decodeBtpHandshakeRequest BtpCodec [0x65, 0x6c, 0x04, 0x56, 0x00, 0x00, 0xb9, 0x00, 0x06]
     = Inr (BtpHandshakeRequest [4, 5, 6] 185 6)"
  "decodeBtpHandshakeRequest BtpCodec [0x0d, 0x6c, 0x04, 0x00, 0x00, 0x00, 0xb9, 0x00, 0x06]
     = Inl (OtherError BadHandshakeHeader)"
  "decodeBtpHandshakeRequest BtpCodec [0x65, 0x6d, 0x04, 0x00, 0x00, 0x00, 0xb9, 0x00, 0x06]
     = Inl (OtherError BadManagementOpcode)"
  "decodeBtpHandshakeRequest BtpCodec [0x65, 0x6c, 0x00, 0x00, 0x00, 0x00, 0xb9, 0x00, 0x06]
     = Inl (OtherError NoValidVersion)"
  "encodeBtpHandshakeResponse BtpCodec \<lparr> version = 4, attMtu = 256, windowSize = 6 \<rparr>
     = [0x65, 0x6c, 0x04, 0x00, 0x01, 0x06]"
  "decodeBtpPacket BtpCodec [0x0d, 0x00, 0x00, 0x44, 0x00, 0x04, 0x00]
     = Inr \<lparr> header = \<lparr> isHandshakeRequest = False, hasManagementOpcode = False,
               hasAckNumber = True, isBeginningSegment = True, isContinuingSegment = False,
               isEndingSegment = True \<rparr>,
             payload = \<lparr> ackNumber = Some 0, frameSequenceNumber = 0,
               messageLength = Some 0x44, segmentPayload = [0x04, 0x00] \<rparr> \<rparr>"
  "decodeBtpPacket BtpCodec [0x65, 0x00, 0x00, 0x44, 0x00, 0x04, 0x00]
     = Inl (OtherError UnexpectedManagementOpcode)"
  "encodeBtpPacket BtpCodec
     \<lparr> header = \<lparr> isHandshakeRequest = False, hasManagementOpcode = False,
         hasAckNumber = True, isBeginningSegment = False, isContinuingSegment = False,
         isEndingSegment = True \<rparr>,
       payload = \<lparr> ackNumber = Some 0, frameSequenceNumber = 0,
         messageLength = None, segmentPayload = [0x04, 0x00] \<rparr> \<rparr>
     = Inr [0x0c, 0x00, 0x00, 0x04, 0x00]"
  "encodeBtpPacket BtpCodec
     \<lparr> header = \<lparr> isHandshakeRequest = False, hasManagementOpcode = False,
         hasAckNumber = False, isBeginningSegment = True, isContinuingSegment = False,
         isEndingSegment = True \<rparr>,
       payload = \<lparr> ackNumber = Some 15231, frameSequenceNumber = 0,
         messageLength = None, segmentPayload = [0x04, 0x00] \<rparr> \<rparr>
     = Inl (OtherError AckNumberNotExpected)"
  by (simp_all add: codec_simps decodeHeader_def BtpCodec_encodeBtpPacket_def encodeHeader_def)

text \<open>
  C1. The handshake request \<open>65 6c 04 00 00 00 b9 00 06\<close> with \<open>maxDataSize = 100\<close>: the
  source adds 3 to \<open>maxDataSize\<close> before it takes the minimum with the ATT_MTU 185 of the
  request, so the ATT_MTU it chooses is 103 and the response it writes is
  \<open>65 6c 04 67 00 06\<close>, not 100 and \<open>65 6c 04 64 00 06\<close>. The fragment size is 100, the
  window size 6.
\<close>

theorem handshake_maxDataSize_100:
  "createFromHandshakeRequest BtpCodec (Some 100)
     [0x65, 0x6c, 0x04, 0x00, 0x00, 0x00, 0xb9, 0x00, 0x06] (\<lambda>_. None)
   = Inr (initialSession 100 6 [WriteBle [0x65, 0x6c, 0x04, 0x67, 0x00, 0x06]])
   \<and> chooseAttMtu (Some 100) 185 = 103"
  by (simp add: createFromHandshakeRequest_def codec_simps constant_simps chooseAttMtu_def
      BtpSessionHandler_new_def initialSession_def)




subsection \<open>The inbound path\<close>

text \<open>The inbound path at the callback that returns at once, written out.\<close>

lemma handleEnding_unfold:
  "handleEnding s p =
     (if isEndingSegment (header p) then
        (case (currentIncomingSegmentedMsgLength s, currentIncomingSegmentedPayload s) of
           (Some len, Some cur) \<Rightarrow>
             (if int (length cur) \<noteq> len
                then (Some (BtpProtocolError LengthMismatch), s)
              else (None, s\<lparr> currentIncomingSegmentedMsgLength := None,
                              currentIncomingSegmentedPayload := None,
                              calls := calls s @ [HandleMatterMessagePayload cur] \<rparr>))
         | _ \<Rightarrow> (Some (BtpProtocolError EndWithoutBegin), s))
      else (None, s))"
  by (simp add: handleEnding_def handleEndingWith_def returnsAtOnce_def split: option.splits)

lemma handleBtpPacket_unfold:
  "handleBtpPacket s p =
     andThen (andThen (andThen (checkFrame s p)
       (\<lambda>s1. handleAck s1 p)) (\<lambda>s2. handleSegment s2 p)) (\<lambda>s3. handleEnding s3 p)"
  by (simp add: handleBtpPacket_def handleBtpPacketWith_def handleEnding_def)

lemma handleIncomingBleData_try_unfold:
  "handleIncomingBleData_try C s data =
     (if int (length data) > fragmentSize s \<and> int (length data) > fragmentSize s + 3
        then (Some (BtpProtocolError OversizedFrame), s)
      else case decodeBtpPacket C data of
             Inl e \<Rightarrow> (Some e, s)
           | Inr btpPacket \<Rightarrow> handleBtpPacket s btpPacket)"
  by (simp add: handleIncomingBleData_try_def handleIncomingBleData_tryWith_def
      handleBtpPacket_def split: sum.splits)

lemma handleIncomingBleData_unfold:
  "handleIncomingBleData C s data =
     (case handleIncomingBleData_try C s data of
        (None, s1) \<Rightarrow> (None, s1)
      | (Some e, s1) \<Rightarrow>
          (if \<not> isBtpProtocolError e then (Some e, close s1) else (None, close s1)))"
  by (simp add: handleIncomingBleData_def handleIncomingBleDataWith_def
      handleIncomingBleData_try_def)


lemma andThen_None [simp]: "andThen (None, s) f = f s"
  by (simp add: andThen_def)

lemma andThen_Some [simp]: "andThen (Some e, s) f = (Some e, s)"
  by (simp add: andThen_def)

lemma andThen_cases:
  assumes "andThen x f = (r, t)"
  obtains (stop) e where "x = (Some e, t)" "r = Some e"
        | (go) u where "x = (None, u)" "f u = (r, t)"
  using assms by (cases x; cases "fst x"; auto simp: andThen_def)

lemma jsRem_256: "0 \<le> a \<Longrightarrow> jsRem a 256 = a mod 256"
  by (simp add: jsRem_def)

lemma sameOutbound_refl [simp]: "sameOutbound s s"
  by (simp add: sameOutbound_def)

lemma sameOutbound_trans: "sameOutbound s t \<Longrightarrow> sameOutbound t u \<Longrightarrow> sameOutbound s u"
  by (simp add: sameOutbound_def)

lemma checkFrame_frame:
  "checkFrame s p = (r, t) \<Longrightarrow> sameOutbound s t \<and> calls t = calls s"
  by (auto simp: checkFrame_def sameOutbound_def Let_def split: if_splits)

lemma handleAck_frame:
  "handleAck s p = (r, t) \<Longrightarrow> sameOutbound s t \<and> calls t = calls s"
  by (auto simp: handleAck_def sameOutbound_def Let_def
      split: if_splits option.splits bool.splits)

lemma handleSegment_frame:
  "handleSegment s p = (r, t) \<Longrightarrow> sameOutbound s t \<and> calls t = calls s"
  by (auto simp: handleSegment_def sameOutbound_def Let_def split: if_splits option.splits)

lemma handleEnding_frame:
  "handleEnding s p = (r, t) \<Longrightarrow> sameOutbound s t \<and>
     (calls t = calls s \<or> (\<exists>m. calls t = calls s @ [HandleMatterMessagePayload m]))"
  by (auto simp: handleEnding_unfold sameOutbound_def Let_def split: if_splits option.splits)

lemma handleBtpPacket_frame:
  assumes "handleBtpPacket s p = (r, t)"
  shows "sameOutbound s t \<and>
     (calls t = calls s \<or> (\<exists>m. calls t = calls s @ [HandleMatterMessagePayload m]))"
  using assms unfolding handleBtpPacket_unfold
  apply (elim andThen_cases)
     apply (auto dest!: checkFrame_frame handleAck_frame handleSegment_frame handleEnding_frame
      intro: sameOutbound_trans)
  done

lemma try_frame:
  assumes "handleIncomingBleData_try C s d = (r, t)"
  shows "sameOutbound s t \<and>
     (calls t = calls s \<or> (\<exists>m. calls t = calls s @ [HandleMatterMessagePayload m]))"
  using assms handleBtpPacket_frame
  by (auto simp: handleIncomingBleData_try_unfold split: if_splits sum.splits)

lemma close_frame:
  "close s = s\<lparr> ackReceiveTimer := Timer_stop (ackReceiveTimer s),
               sendAckTimer := Timer_stop (sendAckTimer s),
               isActive := False,
               calls := (if isActive s then calls s @ [DisconnectBle] else calls s) \<rparr>"
  by (simp add: close_def Let_def)

lemmas inbound_simps = handleIncomingBleData_unfold handleIncomingBleData_try_unfold
  handleBtpPacket_unfold checkFrame_def handleAck_def handleSegment_def handleEnding_unfold
  jsRem_def close_def initialSession_def Timer_new_def Timer_start_def Timer_stop_def
  BtpCodec_def decodeHeader_def readUInt16_def

text \<open>
  C2, as the claim states it, fails. The frame \<open>04 05 01\<close> (an ending segment with
  sequence number 5) reaches a new session, which expects sequence number 0: the
  \<^verbatim>\<open>try\<close> block throws the protocol error of the sequence check, the session is closed,
  and \<^verbatim>\<open>handleIncomingBleData\<close> returns without an exception.
\<close>

theorem sequence_gap_swallowed:
  "handleIncomingBleData_try BtpCodec (initialSession 20 6 []) [0x04, 0x05, 0x01]
     = (Some (BtpProtocolError SequenceGap), initialSession 20 6 [])
   \<and> handleIncomingBleData BtpCodec (initialSession 20 6 []) [0x04, 0x05, 0x01]
     = (None, close (initialSession 20 6 []))"
  by (simp add: inbound_simps Let_def)

text \<open>
  C2, amended. Whenever the \<^verbatim>\<open>try\<close> block of \<^verbatim>\<open>handleIncomingBleData\<close> throws, the
  session is closed, in the state in which the exception left it. An exception that is a
  \<^verbatim>\<open>BtpProtocolError\<close> ends there: the call returns normally. Any other exception
  reaches the caller.
\<close>

theorem protocol_errors_not_rethrown:
  assumes "handleIncomingBleData_try C s d = (Some e, t)"
  shows "handleIncomingBleData C s d = (if isBtpProtocolError e then None else Some e, close t)"
  using assms by (simp add: handleIncomingBleData_unfold)

theorem protocol_errors_not_rethrown_witness:
  "handleIncomingBleData BtpCodec (initialSession 20 6 []) [0x04, 0x05, 0x01]
     = (None, close (initialSession 20 6 []))
   \<and> handleIncomingBleData BtpCodec (initialSession 20 6 []) [0x04]
     = (Some (OtherError OutOfRange), close (initialSession 20 6 []))"
proof -
  have a: "handleIncomingBleData_try BtpCodec (initialSession 20 6 []) [0x04, 0x05, 0x01]
     = (Some (BtpProtocolError SequenceGap), initialSession 20 6 [])"
    by (simp add: inbound_simps Let_def)
  have b: "handleIncomingBleData_try BtpCodec (initialSession 20 6 []) [0x04]
     = (Some (OtherError OutOfRange), initialSession 20 6 [])"
    by (simp add: inbound_simps Let_def)
  show ?thesis
    using protocol_errors_not_rethrown [OF a] protocol_errors_not_rethrown [OF b] by simp
qed

text \<open>
  C4. A frame that gets as far as the check of the sequence number: the buffer is at most
  3 bytes longer than the fragment size, it decodes, the frame is neither a handshake
  request nor has a management opcode, and it has a payload or an ack number. If its
  sequence number is not the previous one plus 1 modulo 256, the \<^verbatim>\<open>try\<close> block throws
  the protocol error of the sequence check, with the session unchanged, and the session is
  closed: after the call both timers are stopped, \<open>isActive\<close> is false, and
  \<^verbatim>\<open>disconnectBle\<close> has been invoked once more if the session was active before; no
  other field has changed. Otherwise the previous sequence number of the session is the
  frame's after the call, whatever the rest of the call does.
\<close>

theorem sequence_check:
  assumes size: "int (length d) \<le> fragmentSize s + 3"
    and dec: "decodeBtpPacket C d = Inr p"
    and ctl: "\<not> isHandshakeRequest (header p)" "\<not> hasManagementOpcode (header p)"
    and nonempty: "segmentPayload (payload p) \<noteq> [] \<or> hasAckNumber (header p)"
    and prev: "0 \<le> prevIncomingSequenceNumber s"
  shows "if frameSequenceNumber (payload p) \<noteq> (prevIncomingSequenceNumber s + 1) mod 256
         then handleIncomingBleData_try C s d = (Some (BtpProtocolError SequenceGap), s)
            \<and> handleIncomingBleData C s d =
                (None, s\<lparr> ackReceiveTimer := (ackReceiveTimer s)\<lparr> isRunning := False \<rparr>,
                           sendAckTimer := (sendAckTimer s)\<lparr> isRunning := False \<rparr>,
                           isActive := False,
                           calls := (if isActive s then calls s @ [DisconnectBle]
                                     else calls s) \<rparr>)
         else prevIncomingSequenceNumber (snd (handleIncomingBleData C s d))
            = frameSequenceNumber (payload p)"
proof (cases "frameSequenceNumber (payload p) \<noteq> (prevIncomingSequenceNumber s + 1) mod 256")
  case True
  then have c: "checkFrame s p = (Some (BtpProtocolError SequenceGap), s)"
    using ctl nonempty prev by (auto simp: checkFrame_def jsRem_256)
  then have "handleIncomingBleData_try C s d = (Some (BtpProtocolError SequenceGap), s)"
    using size dec by (simp add: handleIncomingBleData_try_unfold handleBtpPacket_unfold)
  with True show ?thesis
    by (simp add: handleIncomingBleData_unfold close_def Timer_stop_def Let_def)
next
  case False
  define s1 where "s1 = snd (checkFrame s p)"
  have c: "checkFrame s p = (None, s1)"
    and p1: "prevIncomingSequenceNumber s1 = frameSequenceNumber (payload p)"
    using False ctl nonempty prev unfolding s1_def
    by (auto simp: checkFrame_def jsRem_256 Let_def)
  obtain r t where h: "handleBtpPacket s p = (r, t)" by (cases "handleBtpPacket s p") auto
  have keep: "prevIncomingSequenceNumber t = prevIncomingSequenceNumber s1"
    using h c unfolding handleBtpPacket_unfold
    by (auto elim!: andThen_cases
        simp: handleAck_def handleSegment_def handleEnding_unfold Let_def
        split: if_splits option.splits bool.splits)
  have "handleIncomingBleData_try C s d = (r, t)"
    using size dec h by (simp add: handleIncomingBleData_try_unfold)
  then have "prevIncomingSequenceNumber (snd (handleIncomingBleData C s d))
      = prevIncomingSequenceNumber t"
    by (cases r) (simp_all add: handleIncomingBleData_unfold close_frame)
  with keep p1 False show ?thesis by simp
qed

theorem sequence_check_witness:
  "handleIncomingBleData BtpCodec (initialSession 20 6 []) [0x04, 0x05, 0x01]
     = (None, (initialSession 20 6 [DisconnectBle])
          \<lparr> ackReceiveTimer := \<lparr> isRunning = False, starts = 1 \<rparr>, isActive := False \<rparr>)
   \<and> prevIncomingSequenceNumber
       (snd (handleIncomingBleData BtpCodec (initialSession 20 6 [])
          [0x05, 0x00, 0x01, 0x00, 0xaa]))
     = 0"
proof -
  have d1: "decodeBtpPacket BtpCodec [0x04, 0x05, 0x01] =
      Inr \<lparr> header = \<lparr> isHandshakeRequest = False, hasManagementOpcode = False,
        hasAckNumber = False, isBeginningSegment = False, isContinuingSegment = True,
        isEndingSegment = True \<rparr>,
      payload = \<lparr> ackNumber = None, frameSequenceNumber = 5, messageLength = None,
        segmentPayload = [0x01] \<rparr> \<rparr>"
    by (simp add: BtpCodec_def decodeHeader_def)
  have d2: "decodeBtpPacket BtpCodec [0x05, 0x00, 0x01, 0x00, 0xaa] =
      Inr \<lparr> header = \<lparr> isHandshakeRequest = False, hasManagementOpcode = False,
        hasAckNumber = False, isBeginningSegment = True, isContinuingSegment = False,
        isEndingSegment = True \<rparr>,
      payload = \<lparr> ackNumber = None, frameSequenceNumber = 0, messageLength = Some 1,
        segmentPayload = [0xaa] \<rparr> \<rparr>"
    by (simp add: BtpCodec_def decodeHeader_def readUInt16_def)
  show ?thesis
    using sequence_check [OF _ d1, of "initialSession 20 6 []"]
      sequence_check [OF _ d2, of "initialSession 20 6 []"]
    by (simp add: initialSession_def Timer_new_def Timer_start_def)
qed

lemma later_parts_keep_ack:
  assumes "andThen (handleSegment s p) (\<lambda>u. handleEnding u p) = (r, t)"
  shows "prevIncomingAckNumber t = prevIncomingAckNumber s \<and> ackReceiveTimer t = ackReceiveTimer s
     \<and> r \<noteq> Some (BtpProtocolError InvalidAck)"
  using assms
  by (auto elim!: andThen_cases simp: handleSegment_def handleEnding_unfold
      split: if_splits option.splits)

text \<open>
  C5. A frame with an ack number \<open>a\<close> that gets as far as the check of the ack: the
  buffer is at most 3 bytes longer than the fragment size, it decodes, the frame is neither
  a handshake request nor has a management opcode, and its sequence number is the expected
  one. The ack is valid iff it is greater than the previous ack number and at most the
  sequence number of the session, compared as integers. When it is valid, no invalid ack
  is reported, the previous ack number becomes \<open>a\<close>, and the ack-receive timer has been
  stopped, and started again iff \<open>a\<close> is less than the sequence number of the session.
  When it is not, the \<^verbatim>\<open>try\<close> block throws the protocol error of the invalid ack, the
  previous ack number and the timer are as before, and the session is closed.
\<close>

theorem ack_validation:
  assumes size: "int (length d) \<le> fragmentSize s + 3"
    and dec: "decodeBtpPacket C d = Inr p"
    and ctl: "\<not> isHandshakeRequest (header p)" "\<not> hasManagementOpcode (header p)"
    and prev: "0 \<le> prevIncomingSequenceNumber s"
    and seq: "frameSequenceNumber (payload p) = (prevIncomingSequenceNumber s + 1) mod 256"
    and ack: "hasAckNumber (header p)" "ackNumber (payload p) = Some a"
    and run: "handleIncomingBleData_try C s d = (r, t)"
  shows "if prevIncomingAckNumber s < a \<and> a \<le> sequenceNumber s
         then r \<noteq> Some (BtpProtocolError InvalidAck)
            \<and> prevIncomingAckNumber t = a
            \<and> ackReceiveTimer t =
                (if a < sequenceNumber s then Timer_start (Timer_stop (ackReceiveTimer s))
                 else Timer_stop (ackReceiveTimer s))
         else r = Some (BtpProtocolError InvalidAck)
            \<and> prevIncomingAckNumber t = prevIncomingAckNumber s
            \<and> ackReceiveTimer t = ackReceiveTimer s
            \<and> handleIncomingBleData C s d = (None, close t)"
proof -
  define s1 where "s1 = snd (checkFrame s p)"
  have c: "checkFrame s p = (None, s1)"
    and k: "prevIncomingAckNumber s1 = prevIncomingAckNumber s"
      "sequenceNumber s1 = sequenceNumber s" "ackReceiveTimer s1 = ackReceiveTimer s"
    using ctl prev seq ack unfolding s1_def
    by (auto simp: checkFrame_def jsRem_256 Let_def)
  have h: "andThen (andThen (handleAck s1 p) (\<lambda>u. handleSegment u p)) (\<lambda>u. handleEnding u p)
      = (r, t)"
    using run size dec c by (simp add: handleIncomingBleData_try_unfold handleBtpPacket_unfold)
  show ?thesis
  proof (cases "prevIncomingAckNumber s < a \<and> a \<le> sequenceNumber s")
    case True
    define s2 where "s2 = s1\<lparr> ackReceiveTimer :=
        (if a < sequenceNumber s then Timer_start (Timer_stop (ackReceiveTimer s))
         else Timer_stop (ackReceiveTimer s)), prevIncomingAckNumber := a \<rparr>"
    have "handleAck s1 p = (None, s2)"
      using True ack k by (auto simp: handleAck_def Let_def s2_def)
    with h have "andThen (handleSegment s2 p) (\<lambda>u. handleEnding u p) = (r, t)" by simp
    from later_parts_keep_ack [OF this] True show ?thesis by (simp add: s2_def)
  next
    case False
    then have "handleAck s1 p = (Some (BtpProtocolError InvalidAck), s1)"
      using ack k by (auto simp: handleAck_def)
    with h have "r = Some (BtpProtocolError InvalidAck)" "t = s1" by simp_all
    with False k run show ?thesis by (simp add: handleIncomingBleData_unfold)
  qed
qed

lemma decode_ack_frame:
  "decodeBtpPacket BtpCodec [0x0d, a, 0x00, 0x01, 0x00, 0xaa] =
      Inr \<lparr> header = \<lparr> isHandshakeRequest = False, hasManagementOpcode = False,
        hasAckNumber = True, isBeginningSegment = True, isContinuingSegment = False,
        isEndingSegment = True \<rparr>,
      payload = \<lparr> ackNumber = Some (uint a), frameSequenceNumber = 0, messageLength = Some 1,
        segmentPayload = [0xaa] \<rparr> \<rparr>"
  by (simp add: BtpCodec_def decodeHeader_def readUInt16_def)

theorem ack_validation_witness:
  "prevIncomingAckNumber (snd (handleIncomingBleData_try BtpCodec (initialSession 20 6 [])
       [0x0d, 0x00, 0x00, 0x01, 0x00, 0xaa])) = 0
   \<and> ackReceiveTimer (snd (handleIncomingBleData_try BtpCodec (initialSession 20 6 [])
       [0x0d, 0x00, 0x00, 0x01, 0x00, 0xaa])) = \<lparr> isRunning = False, starts = 1 \<rparr>
   \<and> ackReceiveTimer (snd (handleIncomingBleData_try BtpCodec
       ((initialSession 20 6 [])\<lparr> sequenceNumber := 2 \<rparr>)
       [0x0d, 0x00, 0x00, 0x01, 0x00, 0xaa])) = \<lparr> isRunning = True, starts = 2 \<rparr>
   \<and> fst (handleIncomingBleData_try BtpCodec (initialSession 20 6 [])
       [0x0d, 0x01, 0x00, 0x01, 0x00, 0xaa]) = Some (BtpProtocolError InvalidAck)
   \<and> prevIncomingAckNumber (snd (handleIncomingBleData BtpCodec (initialSession 20 6 [])
       [0x0d, 0x01, 0x00, 0x01, 0x00, 0xaa])) = - 1"
  using
    ack_validation [OF _ decode_ack_frame [of 0] _ _ _ _ _ _ prod.collapse [symmetric],
      of "initialSession 20 6 []" 0]
    ack_validation [OF _ decode_ack_frame [of 0] _ _ _ _ _ _ prod.collapse [symmetric],
      of "(initialSession 20 6 [])\<lparr> sequenceNumber := 2 \<rparr>" 0]
    ack_validation [OF _ decode_ack_frame [of 1] _ _ _ _ _ _ prod.collapse [symmetric],
      of "initialSession 20 6 []" 1]
  by (simp add: initialSession_def Timer_new_def Timer_start_def Timer_stop_def close_frame)

subsection \<open>The outbound path\<close>

lemma getNext_snd:
  "snd (getNextSequenceNumber s) =
     s\<lparr> sequenceNumber := (if sequenceNumber s + 1 > 255 then 0 else sequenceNumber s + 1) \<rparr>"
  by (simp add: getNextSequenceNumber_def Let_def)

lemma getNext_fst:
  "fst (getNextSequenceNumber s) = (if sequenceNumber s + 1 > 255 then 0 else sequenceNumber s + 1)"
  by (simp add: getNextSequenceNumber_def Let_def)

lemma cutSegment_frame:
  assumes "cutSegment s cur rest = (p, e, t)"
  shows "fragmentSize t = fragmentSize s \<and> clientWindowSize t = clientWindowSize s \<and>
    prevIncomingAckNumber t = prevIncomingAckNumber s \<and>
    prevIncomingSequenceNumber t = prevIncomingSequenceNumber s \<and>
    isActive t = isActive s \<and> sendInProgress t = sendInProgress s \<and>
    sequenceNumber t = (if sequenceNumber s + 1 > 255 then 0 else sequenceNumber s + 1) \<and>
    calls t = calls s"
  using assms
  by (auto simp: cutSegment_def Let_def getNext_snd split: if_splits)

lemma writeSegment_frame:
  assumes "writeSegment C w p e s = (r, t)"
  shows "fragmentSize t = fragmentSize s \<and> clientWindowSize t = clientWindowSize s \<and>
    prevIncomingAckNumber t = prevIncomingAckNumber s \<and>
    prevIncomingSequenceNumber t = prevIncomingSequenceNumber s \<and>
    isActive t = isActive s \<and> sendInProgress t = sendInProgress s \<and>
    sequenceNumber t = sequenceNumber s \<and>
    (calls t = calls s \<or> (\<exists>b. calls t = calls s @ [WriteBle b]))"
  using assms
  by (auto simp: writeSegment_def Let_def split: sum.splits option.splits if_splits)

lemma sendSegment_frame:
  assumes "sendSegment C w s = (r, t)"
  shows "fragmentSize t = fragmentSize s \<and> clientWindowSize t = clientWindowSize s \<and>
    prevIncomingAckNumber t = prevIncomingAckNumber s \<and>
    prevIncomingSequenceNumber t = prevIncomingSequenceNumber s \<and>
    isActive t = isActive s \<and> sendInProgress t = sendInProgress s \<and>
    sequenceNumber t \<le> sequenceNumber s + 1 \<and>
    (calls t = calls s \<or> (\<exists>b. calls t = calls s @ [WriteBle b]))"
proof (cases "queuedOutgoingMatterMessages s")
  case Nil
  with assms show ?thesis by (simp add: sendSegment_def)
next
  case (Cons cur rest)
  obtain p e u where c: "cutSegment s cur rest = (p, e, u)"
    by (cases "cutSegment s cur rest") auto
  with assms Cons have w: "writeSegment C w p e u = (r, t)" by (simp add: sendSegment_def)
  show ?thesis
    using cutSegment_frame [OF c] writeSegment_frame [OF w] by auto
qed

text \<open>A rule for the loop of \<^verbatim>\<open>processSendQueue\<close>: an invariant \<open>I\<close> of the passes that
  go on, and a property \<open>Q\<close> of each of the three ways out.\<close>

lemma sendLoop_rule:
  assumes run: "sendLoop C w s = Some y"
    and init: "I s"
    and step: "\<And>t. I t \<Longrightarrow> queuedOutgoingMatterMessages t \<noteq> [] \<Longrightarrow>
        fst (sendSegment C w t) = None \<Longrightarrow> \<not> windowFull (snd (sendSegment C w t)) \<Longrightarrow>
        I (snd (sendSegment C w t))"
    and empty: "\<And>t. I t \<Longrightarrow> queuedOutgoingMatterMessages t = [] \<Longrightarrow> Q (None, t)"
    and failed: "\<And>t. I t \<Longrightarrow> queuedOutgoingMatterMessages t \<noteq> [] \<Longrightarrow>
        fst (sendSegment C w t) \<noteq> None \<Longrightarrow> Q (sendSegment C w t)"
    and full: "\<And>t. I t \<Longrightarrow> queuedOutgoingMatterMessages t \<noteq> [] \<Longrightarrow>
        fst (sendSegment C w t) = None \<Longrightarrow> windowFull (snd (sendSegment C w t)) \<Longrightarrow>
        Q (None, snd (sendSegment C w t))"
  shows "Q y"
proof -
  have "C' = C \<and> w' = w \<longrightarrow> I s' \<longrightarrow> Q y'" if "sendLoop C' w' s' = Some y'" for C' w' s' y'
  proof (rule sendLoop.raw_induct
      [where P = "\<lambda>C' w' s' y'. C' = C \<and> w' = w \<longrightarrow> I s' \<longrightarrow> Q y'", OF _ that])
    fix f C' w' t z
    assume IH: "\<And>a b c y. f a b c = Some y \<Longrightarrow> a = C \<and> b = w \<longrightarrow> I c \<longrightarrow> Q y"
      and eq: "(if queuedOutgoingMatterMessages t = [] then Some (None, t)
        else if fst (sendSegment C' w' t) \<noteq> None then Some (sendSegment C' w' t)
        else if windowFull (snd (sendSegment C' w' t))
          then Some (None, snd (sendSegment C' w' t))
        else f C' w' (snd (sendSegment C' w' t))) = Some z"
    show "C' = C \<and> w' = w \<longrightarrow> I t \<longrightarrow> Q z"
    proof (intro impI, elim conjE)
      assume c: "C' = C" "w' = w" and i: "I t"
      show "Q z"
      proof (cases "queuedOutgoingMatterMessages t = []")
        case True
        with eq empty [OF i] show ?thesis by simp
      next
        case q: False
        show ?thesis
        proof (cases "fst (sendSegment C w t) \<noteq> None")
          case True
          with eq q c failed [OF i q] show ?thesis by simp
        next
          case ok: False
          show ?thesis
          proof (cases "windowFull (snd (sendSegment C w t))")
            case True
            with eq q c ok full [OF i q] show ?thesis by simp
          next
            case False
            with eq q c ok have "f C w (snd (sendSegment C w t)) = Some z" by simp
            moreover have "I (snd (sendSegment C w t))" using step [OF i q] ok False by simp
            ultimately show ?thesis using IH by blast
          qed
        qed
      qed
    qed
  qed
  with run init show ?thesis by blast
qed

text \<open>The loop ends when a fragment has room for a payload: a header has at most 5
  bytes.\<close>

lemma cutSegment_queue:
  assumes "cutSegment s cur rest = (p, e, t)" "5 < fragmentSize s"
  shows "\<exists>r. queuedOutgoingMatterMessages t = r # rest \<and>
     (e \<or> nat (getRemainingBytesCount r) < nat (getRemainingBytesCount cur))"
  using assms
  by (auto simp: cutSegment_def Let_def getNext_snd readByteArray_def getRemainingBytesCount_def
      split: if_splits)

lemma writeSegment_queue:
  assumes "writeSegment C w p e s = (None, t)"
  shows "queuedOutgoingMatterMessages t =
     (if e then tl (queuedOutgoingMatterMessages s) else queuedOutgoingMatterMessages s)"
  using assms
  by (auto simp: writeSegment_def Let_def split: sum.splits option.splits if_splits)

lemma sendSegment_decreases:
  assumes "queuedOutgoingMatterMessages s \<noteq> []" "5 < fragmentSize s"
    "fst (sendSegment C w s) = None"
  shows "queuedBytes (snd (sendSegment C w s)) < queuedBytes s"
proof -
  obtain cur rest where q: "queuedOutgoingMatterMessages s = cur # rest"
    using assms(1) by (cases "queuedOutgoingMatterMessages s") auto
  obtain p e u where c: "cutSegment s cur rest = (p, e, u)"
    by (cases "cutSegment s cur rest") auto
  obtain t where t: "sendSegment C w s = (None, t)"
    using assms(3) by (cases "sendSegment C w s") auto
  with q c have w: "writeSegment C w p e u = (None, t)" by (simp add: sendSegment_def)
  from cutSegment_queue [OF c assms(2)] obtain r where
    r: "queuedOutgoingMatterMessages u = r # rest"
      "e \<or> nat (getRemainingBytesCount r) < nat (getRemainingBytesCount cur)" by blast
  show ?thesis
    using writeSegment_queue [OF w] r q t by (auto simp: queuedBytes_def)
qed

lemma sendLoop_returns:
  assumes "5 < fragmentSize s"
  shows "\<exists>y. sendLoop C w s = Some y"
  using assms
proof (induction "queuedBytes s" arbitrary: s rule: less_induct)
  case less
  show ?case
  proof (cases "queuedOutgoingMatterMessages s = [] \<or> fst (sendSegment C w s) \<noteq> None
      \<or> windowFull (snd (sendSegment C w s))")
    case True
    then show ?thesis by (subst sendLoop.simps) auto
  next
    case False
    then have d: "queuedBytes (snd (sendSegment C w s)) < queuedBytes s"
      using sendSegment_decreases less.prems by simp
    have "fragmentSize (snd (sendSegment C w s)) = fragmentSize s"
      using sendSegment_frame [of C w s] by (cases "sendSegment C w s") auto
    with less.hyps [OF d] less.prems
    obtain y where "sendLoop C w (snd (sendSegment C w s)) = Some y" by auto
    with False show ?thesis by (subst sendLoop.simps) auto
  qed
qed

lemma sameLiveness_refl [simp]: "sameLiveness s s"
  by (simp add: sameLiveness_def)

lemma sendSegment_liveness: "sameLiveness s (snd (sendSegment C w s))"
  using sendSegment_frame [of C w s "fst (sendSegment C w s)" "snd (sendSegment C w s)"]
  by (auto simp: sameLiveness_def disconnects_def)

lemma sendLoop_liveness:
  assumes "sendLoop C w s = Some y"
  shows "sameLiveness s (snd y)"
proof (rule sendLoop_rule [OF assms, where I = "\<lambda>t. sameLiveness s t"
      and Q = "\<lambda>y. sameLiveness s (snd y)"])
  fix t assume "sameLiveness s t"
  then show "sameLiveness s (snd (sendSegment C w t))"
    "sameLiveness s (snd (sendSegment C w t))"
    "sameLiveness s (snd (None :: error option, snd (sendSegment C w t)))"
    "sameLiveness s (snd (None :: error option, t))"
    using sendSegment_liveness [of t C w] by (simp_all add: sameLiveness_def)
qed simp

lemma processSendQueue_liveness:
  assumes "processSendQueue C w s = Some (r, t)"
  shows "sameLiveness s t"
proof (cases "sendInProgress s \<or> windowFull s \<or> queuedOutgoingMatterMessages s = []")
  case True
  with assms show ?thesis by (auto simp: processSendQueue_def split: if_splits)
next
  case False
  then obtain y where y: "sendLoop C w (s\<lparr> sendInProgress := True \<rparr>) = Some y"
    and t: "isActive t = isActive (snd y)" "calls t = calls (snd y)"
    using assms
    by (auto simp: processSendQueue_def split: if_splits prod.splits)
  from sendLoop_liveness [OF y] t show ?thesis
    by (simp add: sameLiveness_def disconnects_def)
qed

lemma sendMatterMessage_liveness:
  assumes "sendMatterMessage C w s m = Some (r, t)"
  shows "sameLiveness s t"
  using assms processSendQueue_liveness
    [of C w "s\<lparr> queuedOutgoingMatterMessages :=
        queuedOutgoingMatterMessages s @ [DataReader_new m] \<rparr>" r t]
  by (auto simp: sendMatterMessage_def sameLiveness_def disconnects_def split: if_splits)

lemma processSendQueue_returns:
  assumes "5 < fragmentSize s"
  shows "\<exists>y. processSendQueue C w s = Some y"
proof -
  have "5 < fragmentSize (s\<lparr> sendInProgress := True \<rparr>)" using assms by simp
  from sendLoop_returns [OF this]
  obtain y where "sendLoop C w (s\<lparr> sendInProgress := True \<rparr>) = Some y" by blast
  then show ?thesis by (simp add: processSendQueue_def)
qed

lemma sendMatterMessage_returns:
  assumes "5 < fragmentSize s"
  shows "\<exists>y. sendMatterMessage C w s m = Some y"
  using assms processSendQueue_returns by (simp add: sendMatterMessage_def)

lemma sendAckTimeout_liveness: "sameLiveness s (snd (btpSendAckTimeoutTriggered C w s))"
  by (auto simp: btpSendAckTimeoutTriggered_def sameLiveness_def disconnects_def Let_def
      getNextSequenceNumber_def split: sum.splits option.splits)

lemma try_liveness:
  assumes "handleIncomingBleData_try C s d = (r, t)"
  shows "sameLiveness s t"
  using try_frame [OF assms] by (auto simp: sameLiveness_def sameOutbound_def disconnects_def)

lemma close_closedOnce: "closedOnce s \<Longrightarrow> closedOnce (close s)"
  by (simp add: closedOnce_def close_frame disconnects_def)

lemma close_inactive: "\<not> isActive s \<Longrightarrow> sameLiveness s (close s)"
  by (simp add: sameLiveness_def close_frame disconnects_def)

lemma sameLiveness_closedOnce: "sameLiveness s t \<Longrightarrow> closedOnce s \<Longrightarrow> closedOnce t"
  by (simp add: sameLiveness_def closedOnce_def)

lemma incoming_closedOnce:
  assumes "closedOnce s"
  shows "closedOnce (snd (handleIncomingBleData C s d))"
proof -
  obtain r t where h: "handleIncomingBleData_try C s d = (r, t)"
    by (cases "handleIncomingBleData_try C s d") auto
  have "closedOnce t" using try_liveness [OF h] assms by (rule sameLiveness_closedOnce)
  then show ?thesis using h close_closedOnce [of t]
    by (cases r) (simp_all add: handleIncomingBleData_unfold)
qed

lemma incoming_inactive:
  assumes "\<not> isActive s"
  shows "sameLiveness s (snd (handleIncomingBleData C s d))"
proof -
  obtain r t where h: "handleIncomingBleData_try C s d = (r, t)"
    by (cases "handleIncomingBleData_try C s d") auto
  have l: "sameLiveness s t" by (rule try_liveness [OF h])
  then have "sameLiveness s (close t)" using assms close_inactive [of t]
    by (simp add: sameLiveness_def)
  with l h show ?thesis by (cases r) (simp_all add: handleIncomingBleData_unfold)
qed

lemma perform_closedOnce:
  assumes "closedOnce s" "perform C w s x = Some t"
  shows "closedOnce t"
proof (cases x)
  case (HandleIncomingBleData d)
  with assms incoming_closedOnce show ?thesis by auto
next
  case (SendMatterMessage m)
  with assms obtain r where "sendMatterMessage C w s m = Some (r, t)" by auto
  from sendMatterMessage_liveness [OF this] assms(1) show ?thesis
    by (rule sameLiveness_closedOnce)
next
  case Close
  with assms close_closedOnce show ?thesis by auto
next
  case SendAckTimeout
  with assms sameLiveness_closedOnce [OF sendAckTimeout_liveness] show ?thesis by auto
next
  case AckTimeout
  with assms close_closedOnce show ?thesis
    by (auto simp: btpAckTimeoutTriggered_def split: if_splits)
qed

lemma perform_inactive:
  assumes "\<not> isActive s" "perform C w s x = Some t"
  shows "\<not> isActive t"
proof (cases x)
  case (HandleIncomingBleData d)
  with assms incoming_inactive [of s C d] show ?thesis by (auto simp: sameLiveness_def)
next
  case (SendMatterMessage m)
  with assms obtain r where "sendMatterMessage C w s m = Some (r, t)" by auto
  from sendMatterMessage_liveness [OF this] assms(1) show ?thesis
    by (simp add: sameLiveness_def)
next
  case Close
  with assms show ?thesis by (auto simp: close_frame)
next
  case SendAckTimeout
  with assms sendAckTimeout_liveness [of s C w] show ?thesis by (auto simp: sameLiveness_def)
next
  case AckTimeout
  with assms show ?thesis
    by (auto simp: btpAckTimeoutTriggered_def close_frame split: if_splits)
qed

lemma performAll_closedOnce:
  "closedOnce s \<Longrightarrow> performAll C w s xs = Some t \<Longrightarrow> closedOnce t"
  by (induction xs arbitrary: s) (auto split: option.splits dest: perform_closedOnce)

lemma performAll_inactive:
  "\<not> isActive s \<Longrightarrow> performAll C w s xs = Some t \<Longrightarrow> \<not> isActive t"
  by (induction xs arbitrary: s) (auto split: option.splits dest: perform_inactive)

lemma performAll_append:
  "performAll C w s (xs @ ys) =
     (case performAll C w s xs of None \<Rightarrow> None | Some u \<Rightarrow> performAll C w u ys)"
  by (induction xs arbitrary: s) (auto split: option.splits)



lemmas outbound_simps = initialSession_def DataReader_new_def Timer_new_def Timer_start_def
  Timer_stop_def getLength_def getRemainingBytesCount_def readByteArray_def
  getNextSequenceNumber_def windowFull_def unacked_def
  cutSegment_def writeSegment_def sendSegment_def
  BtpCodec_def BtpCodec_encodeBtpPacket_def encodeHeader_def writeUInt8_def writeUInt16_def



text \<open>
  The model on the scenario of the test \<^verbatim>\<open>handles a correct One segment long Matter
  Message\<close> of \<^verbatim>\<open>test/ble/BtpSessionHandlerTest.ts\<close>: after the handshake with
  \<open>maxDataSize = 20\<close>, the frame \<open>0d 00 00 09 00 01 .. 09\<close> hands over the message
  \<open>01 .. 09\<close>, and the message \<open>09 .. 01\<close> sent then is written as
  \<open>0d 00 01 09 00 09 .. 01\<close>.
\<close>

lemma one_segment_received:
  "handleIncomingBleData BtpCodec
     (initialSession 20 6 [WriteBle [0x65, 0x6c, 0x04, 0x17, 0x00, 0x06]])
     [0x0d, 0x00, 0x00, 0x09, 0x00, 1, 2, 3, 4, 5, 6, 7, 8, 9]
   = (None, (initialSession 20 6 [WriteBle [0x65, 0x6c, 0x04, 0x17, 0x00, 0x06],
               HandleMatterMessagePayload [1, 2, 3, 4, 5, 6, 7, 8, 9]])
        \<lparr> prevIncomingSequenceNumber := 0, prevIncomingAckNumber := 0,
          ackReceiveTimer := Timer_stop (Timer_start Timer_new),
          sendAckTimer := Timer_start Timer_new \<rparr>)"
  by (simp add: inbound_simps Let_def)

lemma one_segment_loop:
  "sendLoop BtpCodec (\<lambda>_. None)
     ((initialSession 20 6 [WriteBle [0x65, 0x6c, 0x04, 0x17, 0x00, 0x06],
               HandleMatterMessagePayload [1, 2, 3, 4, 5, 6, 7, 8, 9]])
        \<lparr> prevIncomingSequenceNumber := 0, prevIncomingAckNumber := 0,
          ackReceiveTimer := Timer_stop (Timer_start Timer_new),
          sendAckTimer := Timer_start Timer_new,
          queuedOutgoingMatterMessages := [DataReader_new [9, 8, 7, 6, 5, 4, 3, 2, 1]],
          sendInProgress := True \<rparr>)
   = Some (None,
       (initialSession 20 6 [WriteBle [0x65, 0x6c, 0x04, 0x17, 0x00, 0x06],
               HandleMatterMessagePayload [1, 2, 3, 4, 5, 6, 7, 8, 9],
               WriteBle [0x0d, 0x00, 0x01, 0x09, 0x00, 9, 8, 7, 6, 5, 4, 3, 2, 1]])
        \<lparr> prevIncomingSequenceNumber := 0, prevIncomingAckNumber := 0,
          ackReceiveTimer := Timer_start (Timer_stop (Timer_start Timer_new)),
          sendAckTimer := Timer_stop (Timer_start Timer_new),
          sequenceNumber := 1, prevAckedSequenceNumber := 0,
          sendInProgress := True \<rparr>)"
  apply (subst sendLoop.simps)
  apply (simp add: outbound_simps Let_def)
  apply (subst sendLoop.simps)
  apply (simp add: outbound_simps Let_def)
  done

lemma one_segment_answered:
  "sendMatterMessage BtpCodec (\<lambda>_. None)
       ((initialSession 20 6 [WriteBle [0x65, 0x6c, 0x04, 0x17, 0x00, 0x06],
               HandleMatterMessagePayload [1, 2, 3, 4, 5, 6, 7, 8, 9]])
        \<lparr> prevIncomingSequenceNumber := 0, prevIncomingAckNumber := 0,
          ackReceiveTimer := Timer_stop (Timer_start Timer_new),
          sendAckTimer := Timer_start Timer_new \<rparr>)
       [9, 8, 7, 6, 5, 4, 3, 2, 1]
   = Some (None,
       (initialSession 20 6 [WriteBle [0x65, 0x6c, 0x04, 0x17, 0x00, 0x06],
               HandleMatterMessagePayload [1, 2, 3, 4, 5, 6, 7, 8, 9],
               WriteBle [0x0d, 0x00, 0x01, 0x09, 0x00, 9, 8, 7, 6, 5, 4, 3, 2, 1]])
        \<lparr> prevIncomingSequenceNumber := 0, prevIncomingAckNumber := 0,
          ackReceiveTimer := Timer_start (Timer_stop (Timer_start Timer_new)),
          sendAckTimer := Timer_stop (Timer_start Timer_new),
          sequenceNumber := 1, prevAckedSequenceNumber := 0 \<rparr>)"
  using one_segment_loop
  by (simp add: sendMatterMessage_def processSendQueue_def outbound_simps)




subsection \<open>Closing\<close>

text \<open>
  C7. \<^verbatim>\<open>close\<close> stops both timers, clears the liveness flag, and invokes
  \<^verbatim>\<open>disconnectBle\<close> iff the session was active; to close again changes nothing. Over
  the life of a session, from the constructor through any operations that return (frames
  received, messages sent, timers expired, the session closed): \<^verbatim>\<open>disconnectBle\<close> has
  been invoked once when the session is not active and never while it is, and a session
  that is not active stays so, without another call of \<^verbatim>\<open>disconnectBle\<close>.
\<close>

theorem close_once:
  assumes "filter isDisconnectBle cs = []"
    and "performAll C w (initialSession f n cs) (xs @ ys) = Some t"
    and "performAll C w (initialSession f n cs) xs = Some u"
  shows "disconnects t = (if isActive t then [] else [DisconnectBle])
     \<and> (if isActive u then disconnects u = [] else \<not> isActive t \<and> disconnects t = disconnects u)
     \<and> close s = s\<lparr> ackReceiveTimer := Timer_stop (ackReceiveTimer s),
                     sendAckTimer := Timer_stop (sendAckTimer s),
                     isActive := False,
                     calls := (if isActive s then calls s @ [DisconnectBle] else calls s) \<rparr>
     \<and> \<not> isRunning (ackReceiveTimer (close s)) \<and> \<not> isRunning (sendAckTimer (close s))
     \<and> (close ^^ Suc k) s = close s"
proof -
  have i: "closedOnce (initialSession f n cs)"
    using assms(1) by (simp add: closedOnce_def disconnects_def initialSession_def)
  have t: "closedOnce t" by (rule performAll_closedOnce [OF i assms(2)])
  have u: "closedOnce u" by (rule performAll_closedOnce [OF i assms(3)])
  have ut: "performAll C w u ys = Some t"
    using assms(2,3) by (simp add: performAll_append)
  have 1: "disconnects t = (if isActive t then [] else [DisconnectBle])"
    using t by (simp add: closedOnce_def)
  have 2: "if isActive u then disconnects u = []
      else \<not> isActive t \<and> disconnects t = disconnects u"
    using performAll_inactive [OF _ ut] t u by (auto simp: closedOnce_def)
  have c: "close (close v) = close v" for v
    by (simp add: close_def Let_def Timer_stop_def)
  have 3: "(close ^^ Suc k) s = close s"
    by (induction k) (simp_all add: c)
  show ?thesis using 1 2 3 by (simp add: close_frame Timer_stop_def)
qed
theorem close_once_witness:
  "disconnects ((close (initialSession 20 2 []))) = [DisconnectBle]
   \<and> disconnects (close (close (initialSession 20 2 []))) = [DisconnectBle]"
  using close_once [of "[]" BtpCodec "\<lambda>_. None" 20 2 "[Close]" "[Close]"
      "close (close (initialSession 20 2 []))" "close (initialSession 20 2 [])"]
  by (simp add: close_frame initialSession_def disconnects_def)

text \<open>The liveness flag is read by \<^verbatim>\<open>close\<close> only: the other operations do to a
  session what they do to the session with another flag.\<close>

lemma checkFrame_isActive:
  "checkFrame (s\<lparr> isActive := b \<rparr>) p
     = (fst (checkFrame s p), (snd (checkFrame s p))\<lparr> isActive := b \<rparr>)"
  by (simp add: checkFrame_def Let_def)

lemma handleAck_isActive:
  "handleAck (s\<lparr> isActive := b \<rparr>) p
     = (fst (handleAck s p), (snd (handleAck s p))\<lparr> isActive := b \<rparr>)"
  by (simp add: handleAck_def Let_def split: option.splits bool.splits)

lemma handleSegment_isActive:
  "handleSegment (s\<lparr> isActive := b \<rparr>) p
     = (fst (handleSegment s p), (snd (handleSegment s p))\<lparr> isActive := b \<rparr>)"
  by (simp add: handleSegment_def Let_def split: option.splits)

lemma handleEnding_isActive:
  "handleEnding (s\<lparr> isActive := b \<rparr>) p
     = (fst (handleEnding s p), (snd (handleEnding s p))\<lparr> isActive := b \<rparr>)"
  by (simp add: handleEnding_unfold Let_def split: option.splits)

lemma andThen_isActive:
  assumes "r' = (fst r, (snd r)\<lparr> isActive := b \<rparr>)"
    and "\<And>u. f' (u\<lparr> isActive := b \<rparr>) = (fst (f u), (snd (f u))\<lparr> isActive := b \<rparr>)"
  shows "andThen r' f' = (fst (andThen r f), (snd (andThen r f))\<lparr> isActive := b \<rparr>)"
  using assms by (cases r) (auto simp: andThen_def split: option.splits)

lemma handleBtpPacket_isActive:
  "handleBtpPacket (s\<lparr> isActive := b \<rparr>) p
     = (fst (handleBtpPacket s p), (snd (handleBtpPacket s p))\<lparr> isActive := b \<rparr>)"
  unfolding handleBtpPacket_unfold
  by (intro andThen_isActive checkFrame_isActive handleAck_isActive handleSegment_isActive
      handleEnding_isActive)

lemma try_isActive:
  "handleIncomingBleData_try C (s\<lparr> isActive := b \<rparr>) d
     = (fst (handleIncomingBleData_try C s d),
        (snd (handleIncomingBleData_try C s d))\<lparr> isActive := b \<rparr>)"
  by (simp add: handleIncomingBleData_try_unfold handleBtpPacket_isActive split: sum.splits)

lemma cutSegment_isActive:
  "cutSegment (s\<lparr> isActive := b \<rparr>) cur rest
     = (fst (cutSegment s cur rest), fst (snd (cutSegment s cur rest)),
        (snd (snd (cutSegment s cur rest)))\<lparr> isActive := b \<rparr>)"
  by (simp add: cutSegment_def Let_def getNext_snd getNext_fst)

lemma writeSegment_isActive:
  "writeSegment C w p e (s\<lparr> isActive := b \<rparr>)
     = (fst (writeSegment C w p e s), (snd (writeSegment C w p e s))\<lparr> isActive := b \<rparr>)"
  by (simp add: writeSegment_def Let_def split: sum.splits option.splits)

lemma sendSegment_isActive:
  "sendSegment C w (s\<lparr> isActive := b \<rparr>)
     = (fst (sendSegment C w s), (snd (sendSegment C w s))\<lparr> isActive := b \<rparr>)"
  by (simp add: sendSegment_def cutSegment_isActive writeSegment_isActive
      split: list.splits prod.splits)

lemma windowFull_isActive [simp]: "windowFull (s\<lparr> isActive := b \<rparr>) = windowFull s"
  by (simp add: windowFull_def)

lemma sendLoop_isActive_Some:
  assumes "sendLoop C w s = Some y"
  shows "sendLoop C w (s\<lparr> isActive := b \<rparr>) = Some (fst y, (snd y)\<lparr> isActive := b \<rparr>)"
proof (rule sendLoop_rule [OF assms,
      where I = "\<lambda>t. sendLoop C w (s\<lparr> isActive := b \<rparr>) = sendLoop C w (t\<lparr> isActive := b \<rparr>)"
        and Q = "\<lambda>y. sendLoop C w (s\<lparr> isActive := b \<rparr>)
                  = Some (fst y, (snd y)\<lparr> isActive := b \<rparr>)"])
  show "sendLoop C w (s\<lparr> isActive := b \<rparr>) = sendLoop C w (s\<lparr> isActive := b \<rparr>)" ..
next
  fix t
  assume i: "sendLoop C w (s\<lparr> isActive := b \<rparr>) = sendLoop C w (t\<lparr> isActive := b \<rparr>)"
    and q: "queuedOutgoingMatterMessages t \<noteq> []"
    and ok: "fst (sendSegment C w t) = None"
    and nf: "\<not> windowFull (snd (sendSegment C w t))"
  have "sendLoop C w (t\<lparr> isActive := b \<rparr>)
      = sendLoop C w ((snd (sendSegment C w t))\<lparr> isActive := b \<rparr>)"
    using q ok nf by (subst sendLoop.simps) (simp add: sendSegment_isActive)
  with i show "sendLoop C w (s\<lparr> isActive := b \<rparr>)
      = sendLoop C w ((snd (sendSegment C w t))\<lparr> isActive := b \<rparr>)" by simp
next
  fix t
  assume i: "sendLoop C w (s\<lparr> isActive := b \<rparr>) = sendLoop C w (t\<lparr> isActive := b \<rparr>)"
    and q: "queuedOutgoingMatterMessages t = []"
  have "sendLoop C w (t\<lparr> isActive := b \<rparr>) = Some (None, t\<lparr> isActive := b \<rparr>)"
    using q by (subst sendLoop.simps) simp
  with i show "sendLoop C w (s\<lparr> isActive := b \<rparr>)
      = Some (fst (None :: error option, t), (snd (None :: error option, t))\<lparr> isActive := b \<rparr>)"
    by simp
next
  fix t
  assume i: "sendLoop C w (s\<lparr> isActive := b \<rparr>) = sendLoop C w (t\<lparr> isActive := b \<rparr>)"
    and q: "queuedOutgoingMatterMessages t \<noteq> []"
    and bad: "fst (sendSegment C w t) \<noteq> None"
  have "sendLoop C w (t\<lparr> isActive := b \<rparr>)
      = Some (fst (sendSegment C w t), (snd (sendSegment C w t))\<lparr> isActive := b \<rparr>)"
    using q bad by (subst sendLoop.simps) (simp add: sendSegment_isActive)
  with i show "sendLoop C w (s\<lparr> isActive := b \<rparr>)
      = Some (fst (sendSegment C w t), (snd (sendSegment C w t))\<lparr> isActive := b \<rparr>)"
    by simp
next
  fix t
  assume i: "sendLoop C w (s\<lparr> isActive := b \<rparr>) = sendLoop C w (t\<lparr> isActive := b \<rparr>)"
    and q: "queuedOutgoingMatterMessages t \<noteq> []"
    and ok: "fst (sendSegment C w t) = None"
    and full: "windowFull (snd (sendSegment C w t))"
  have "sendLoop C w (t\<lparr> isActive := b \<rparr>)
      = Some (None, (snd (sendSegment C w t))\<lparr> isActive := b \<rparr>)"
    using q ok full by (subst sendLoop.simps) (simp add: sendSegment_isActive)
  with i show "sendLoop C w (s\<lparr> isActive := b \<rparr>)
      = Some (fst (None :: error option, snd (sendSegment C w t)),
              (snd (None :: error option, snd (sendSegment C w t)))\<lparr> isActive := b \<rparr>)"
    by simp
qed

lemma sendLoop_isActive:
  "sendLoop C w (s\<lparr> isActive := b \<rparr>)
     = map_option (\<lambda>y. (fst y, (snd y)\<lparr> isActive := b \<rparr>)) (sendLoop C w s)"
proof (cases "sendLoop C w s")
  case (Some y)
  with sendLoop_isActive_Some [OF Some, where b = b] show ?thesis by simp
next
  case None
  have "sendLoop C w (s\<lparr> isActive := b \<rparr>) = None"
  proof (rule ccontr)
    assume "sendLoop C w (s\<lparr> isActive := b \<rparr>) \<noteq> None"
    then obtain y where "sendLoop C w (s\<lparr> isActive := b \<rparr>) = Some y" by auto
    from sendLoop_isActive_Some [OF this, where b = "isActive s"] None show False by simp
  qed
  with None show ?thesis by simp
qed

lemma processSendQueue_isActive:
  "processSendQueue C w (s\<lparr> isActive := b \<rparr>)
     = map_option (\<lambda>y. (fst y, (snd y)\<lparr> isActive := b \<rparr>)) (processSendQueue C w s)"
proof -
  have swap: "s\<lparr> isActive := b, sendInProgress := True \<rparr>
      = s\<lparr> sendInProgress := True, isActive := b \<rparr>" by simp
  have "sendLoop C w (s\<lparr> isActive := b, sendInProgress := True \<rparr>)
      = map_option (\<lambda>y. (fst y, (snd y)\<lparr> isActive := b \<rparr>))
          (sendLoop C w (s\<lparr> sendInProgress := True \<rparr>))"
    unfolding swap by (rule sendLoop_isActive)
  then show ?thesis
    by (cases "sendLoop C w (s\<lparr> sendInProgress := True \<rparr>)")
      (auto simp: processSendQueue_def split: prod.splits)
qed

lemma sendMatterMessage_isActive:
  "sendMatterMessage C w (s\<lparr> isActive := b \<rparr>) m
     = map_option (\<lambda>y. (fst y, (snd y)\<lparr> isActive := b \<rparr>)) (sendMatterMessage C w s m)"
proof -
  have swap: "s\<lparr> isActive := b, queuedOutgoingMatterMessages := q \<rparr>
      = s\<lparr> queuedOutgoingMatterMessages := q, isActive := b \<rparr>" for q by simp
  show ?thesis
    by (simp add: sendMatterMessage_def swap processSendQueue_isActive)
qed

lemma sendLoop_closed:
  "sendLoop BtpCodec (\<lambda>_. None)
     ((close (initialSession 20 2 []))\<lparr> queuedOutgoingMatterMessages := [DataReader_new [0x01]],
        sendInProgress := True \<rparr>)
   = Some (None, (close (initialSession 20 2 []))
       \<lparr> sequenceNumber := 1, prevAckedSequenceNumber := 255, sendInProgress := True,
         ackReceiveTimer := \<lparr> isRunning = True, starts = 2 \<rparr>,
         calls := [DisconnectBle, WriteBle [0x0d, 0xff, 0x01, 0x01, 0x00, 0x01]] \<rparr>)"
  by (subst sendLoop.simps) (simp add: outbound_simps close_def Let_def eval_nat_numeral)

lemma sendMatterMessage_closed:
  "sendMatterMessage BtpCodec (\<lambda>_. None) (close (initialSession 20 2 [])) [0x01]
   = Some (None, (close (initialSession 20 2 []))
       \<lparr> sequenceNumber := 1, prevAckedSequenceNumber := 255,
         ackReceiveTimer := \<lparr> isRunning = True, starts = 2 \<rparr>,
         calls := [DisconnectBle, WriteBle [0x0d, 0xff, 0x01, 0x01, 0x00, 0x01]] \<rparr>)"
  using sendLoop_closed
  by (simp add: sendMatterMessage_def processSendQueue_def outbound_simps close_def Let_def
      eval_nat_numeral)

text \<open>
  C9, as the claim states it, fails. A session is closed. A frame that arrives then is
  processed: the previous sequence number changes, the send-ack timer is started, and the
  message is handed to the upper layer. A message sent then is written to the transport,
  and the sequence number changes.
\<close>

theorem closed_session_still_works:
  "handleIncomingBleData BtpCodec (close (initialSession 20 2 [])) [0x05, 0x00, 0x01, 0x00, 0xaa]
     = (None, (close (initialSession 20 2 []))
         \<lparr> prevIncomingSequenceNumber := 0,
           sendAckTimer := \<lparr> isRunning = True, starts = 1 \<rparr>,
           calls := [DisconnectBle, HandleMatterMessagePayload [0xaa]] \<rparr>)
   \<and> sendMatterMessage BtpCodec (\<lambda>_. None) (close (initialSession 20 2 [])) [0x01]
     = Some (None, (close (initialSession 20 2 []))
         \<lparr> sequenceNumber := 1, prevAckedSequenceNumber := 255,
           ackReceiveTimer := \<lparr> isRunning = True, starts = 2 \<rparr>,
           calls := [DisconnectBle, WriteBle [0x0d, 0xff, 0x01, 0x01, 0x00, 0x01]] \<rparr>)"
  by (simp add: sendMatterMessage_closed) (simp add: inbound_simps Let_def)

text \<open>
  C9, amended. No operation looks at the liveness flag, except \<^verbatim>\<open>close\<close>. After
  \<^verbatim>\<open>close\<close>, the \<^verbatim>\<open>try\<close> block of \<^verbatim>\<open>handleIncomingBleData\<close> and
  \<^verbatim>\<open>sendMatterMessage\<close> do to the session exactly what they do to the session that
  differs only in being active: the same exception, the same changes of the state, the same
  messages handed to the upper layer and the same frames written, whether or not
  \<^verbatim>\<open>sendMatterMessage\<close> returns; only the flag stays false. When the \<^verbatim>\<open>try\<close> block
  throws, the \<^verbatim>\<open>catch\<close> block of \<^verbatim>\<open>handleIncomingBleData\<close> stops the two timers and
  does nothing else. So the session stays not active and \<^verbatim>\<open>disconnectBle\<close> is not invoked
  again. \<^verbatim>\<open>sendMatterMessage\<close> returns when the fragment size is more than 5.
\<close>

theorem after_close:
  assumes "\<not> isActive s"
  shows "handleIncomingBleData_try C s d
       = (fst (handleIncomingBleData_try C (s\<lparr> isActive := True \<rparr>) d),
          (snd (handleIncomingBleData_try C (s\<lparr> isActive := True \<rparr>) d))\<lparr> isActive := False \<rparr>)
     \<and> handleIncomingBleData C s d
       = (case handleIncomingBleData_try C s d of
            (None, t) \<Rightarrow> (None, t)
          | (Some e, t) \<Rightarrow>
              (if isBtpProtocolError e then None else Some e,
               t\<lparr> ackReceiveTimer := (ackReceiveTimer t)\<lparr> isRunning := False \<rparr>,
                  sendAckTimer := (sendAckTimer t)\<lparr> isRunning := False \<rparr> \<rparr>))
     \<and> sendMatterMessage C w s m
       = map_option (\<lambda>y. (fst y, (snd y)\<lparr> isActive := False \<rparr>))
           (sendMatterMessage C w (s\<lparr> isActive := True \<rparr>) m)
     \<and> \<not> isActive (snd (handleIncomingBleData C s d))
     \<and> disconnects (snd (handleIncomingBleData C s d)) = disconnects s
     \<and> (\<forall>r t. sendMatterMessage C w s m = Some (r, t)
           \<longrightarrow> \<not> isActive t \<and> disconnects t = disconnects s)
     \<and> (5 < fragmentSize s \<longrightarrow> (\<exists>y. sendMatterMessage C w s m = Some y))"
proof (intro conjI)
  have s: "(s\<lparr> isActive := True \<rparr>)\<lparr> isActive := False \<rparr> = s" using assms by simp
  show "handleIncomingBleData_try C s d
       = (fst (handleIncomingBleData_try C (s\<lparr> isActive := True \<rparr>) d),
          (snd (handleIncomingBleData_try C (s\<lparr> isActive := True \<rparr>) d))\<lparr> isActive := False \<rparr>)"
    using try_isActive [where s = "s\<lparr> isActive := True \<rparr>" and b = False and C = C and d = d]
    unfolding s .
  show "sendMatterMessage C w s m
       = map_option (\<lambda>y. (fst y, (snd y)\<lparr> isActive := False \<rparr>))
           (sendMatterMessage C w (s\<lparr> isActive := True \<rparr>) m)"
    using sendMatterMessage_isActive
      [where s = "s\<lparr> isActive := True \<rparr>" and b = False and C = C and w = w and m = m]
    unfolding s .
  obtain r t where h: "handleIncomingBleData_try C s d = (r, t)"
    by (cases "handleIncomingBleData_try C s d") auto
  have l: "sameLiveness s t" by (rule try_liveness [OF h])
  then have na: "\<not> isActive t" using assms by (simp add: sameLiveness_def)
  show "handleIncomingBleData C s d
       = (case handleIncomingBleData_try C s d of
            (None, t) \<Rightarrow> (None, t)
          | (Some e, t) \<Rightarrow>
              (if isBtpProtocolError e then None else Some e,
               t\<lparr> ackReceiveTimer := (ackReceiveTimer t)\<lparr> isRunning := False \<rparr>,
                  sendAckTimer := (sendAckTimer t)\<lparr> isRunning := False \<rparr> \<rparr>))"
    using h na
    by (cases r) (simp_all add: handleIncomingBleData_unfold close_def Timer_stop_def Let_def)
  show "\<not> isActive (snd (handleIncomingBleData C s d))"
    using incoming_inactive [OF assms, of C d] assms by (simp add: sameLiveness_def)
  show "disconnects (snd (handleIncomingBleData C s d)) = disconnects s"
    using incoming_inactive [OF assms, of C d] by (simp add: sameLiveness_def)
  show "\<forall>r t. sendMatterMessage C w s m = Some (r, t)
           \<longrightarrow> \<not> isActive t \<and> disconnects t = disconnects s"
    using sendMatterMessage_liveness [of C w s m] assms by (auto simp: sameLiveness_def)
  show "5 < fragmentSize s \<longrightarrow> (\<exists>y. sendMatterMessage C w s m = Some y)"
    using sendMatterMessage_returns [of s C w m] by simp
qed

theorem after_close_witness:
  "\<not> isActive (close (initialSession 20 2 []))
   \<and> handleIncomingBleData_try BtpCodec (close (initialSession 20 2 []))
        [0x05, 0x00, 0x01, 0x00, 0xaa]
     = (fst (handleIncomingBleData_try BtpCodec
               ((close (initialSession 20 2 []))\<lparr> isActive := True \<rparr>)
               [0x05, 0x00, 0x01, 0x00, 0xaa]),
        (snd (handleIncomingBleData_try BtpCodec
               ((close (initialSession 20 2 []))\<lparr> isActive := True \<rparr>)
               [0x05, 0x00, 0x01, 0x00, 0xaa]))\<lparr> isActive := False \<rparr>)
   \<and> sendMatterMessage BtpCodec (\<lambda>_. None) (close (initialSession 20 2 [])) [0x01]
     = map_option (\<lambda>y. (fst y, (snd y)\<lparr> isActive := False \<rparr>))
         (sendMatterMessage BtpCodec (\<lambda>_. None)
            ((close (initialSession 20 2 []))\<lparr> isActive := True \<rparr>) [0x01])
   \<and> \<not> isActive (snd (handleIncomingBleData BtpCodec (close (initialSession 20 2 []))
        [0x05, 0x00, 0x01, 0x00, 0xaa]))
   \<and> disconnects (snd (handleIncomingBleData BtpCodec (close (initialSession 20 2 []))
        [0x05, 0x00, 0x01, 0x00, 0xaa])) = [DisconnectBle]
   \<and> (\<exists>y. sendMatterMessage BtpCodec (\<lambda>_. None) (close (initialSession 20 2 [])) [0x01]
          = Some y)"
proof -
  have c: "\<not> isActive (close (initialSession 20 2 []))"
    by (simp add: close_frame)
  have f: "5 < fragmentSize (close (initialSession 20 2 []))"
    by (simp add: close_frame initialSession_def)
  have d: "disconnects (close (initialSession 20 2 [])) = [DisconnectBle]"
    by (simp add: close_frame initialSession_def disconnects_def)
  note t = after_close [OF c, where C = BtpCodec
      and d = "[0x05, 0x00, 0x01, 0x00, 0xaa]" and w = "\<lambda>_. None" and m = "[0x01]"]
  note t1 = t [THEN conjunct1]
  note t3 = t [THEN conjunct2, THEN conjunct2, THEN conjunct1]
  note t4 = t [THEN conjunct2, THEN conjunct2, THEN conjunct2, THEN conjunct1]
  note t5 = t [THEN conjunct2, THEN conjunct2, THEN conjunct2, THEN conjunct2, THEN conjunct1]
  note t7 = t [THEN conjunct2, THEN conjunct2, THEN conjunct2, THEN conjunct2, THEN conjunct2,
      THEN conjunct2]
  show ?thesis
  proof (intro conjI)
    show "\<not> isActive (close (initialSession 20 2 []))" by (rule c)
    show "handleIncomingBleData_try BtpCodec (close (initialSession 20 2 []))
        [0x05, 0x00, 0x01, 0x00, 0xaa]
     = (fst (handleIncomingBleData_try BtpCodec
               ((close (initialSession 20 2 []))\<lparr> isActive := True \<rparr>)
               [0x05, 0x00, 0x01, 0x00, 0xaa]),
        (snd (handleIncomingBleData_try BtpCodec
               ((close (initialSession 20 2 []))\<lparr> isActive := True \<rparr>)
               [0x05, 0x00, 0x01, 0x00, 0xaa]))\<lparr> isActive := False \<rparr>)"
      by (rule t1)
    show "sendMatterMessage BtpCodec (\<lambda>_. None) (close (initialSession 20 2 [])) [0x01]
     = map_option (\<lambda>y. (fst y, (snd y)\<lparr> isActive := False \<rparr>))
         (sendMatterMessage BtpCodec (\<lambda>_. None)
            ((close (initialSession 20 2 []))\<lparr> isActive := True \<rparr>) [0x01])"
      by (rule t3)
    show "\<not> isActive (snd (handleIncomingBleData BtpCodec (close (initialSession 20 2 []))
        [0x05, 0x00, 0x01, 0x00, 0xaa]))"
      by (rule t4)
    show "disconnects (snd (handleIncomingBleData BtpCodec (close (initialSession 20 2 []))
        [0x05, 0x00, 0x01, 0x00, 0xaa])) = [DisconnectBle]"
      using t5 d by simp
    show "\<exists>y. sendMatterMessage BtpCodec (\<lambda>_. None) (close (initialSession 20 2 [])) [0x01]
          = Some y"
      using t7 f by simp
  qed
qed


subsection \<open>Reassembly\<close>

lemma receiveAll_Nil [simp]: "receiveAll C s [] = s"
  by (simp add: receiveAll_def)

lemma receiveAll_Cons [simp]:
  "receiveAll C s (d # ds) = receiveAll C (snd (handleIncomingBleData C s d)) ds"
  by (simp add: receiveAll_def)




















subsection \<open>The deliver callback\<close>

text \<open>The inbound path with a callback is the inbound path with the callback that returns
  at once, followed by the callback on the message handed over, if there is one.\<close>

lemma handleEndingWith_handleEnding:
  "handleEndingWith k s p =
     (case handleEnding s p of
        (Some e, t) \<Rightarrow> (Some e, t)
      | (None, t) \<Rightarrow> (case delivered s t of None \<Rightarrow> (None, t) | Some m \<Rightarrow> k m t))"
  by (simp add: handleEndingWith_def handleEnding_unfold delivered_def split: option.splits)

lemma handleBtpPacketWith_handleBtpPacket:
  "handleBtpPacketWith k s p =
     (case handleBtpPacket s p of
        (Some e, t) \<Rightarrow> (Some e, t)
      | (None, t) \<Rightarrow> (case delivered s t of None \<Rightarrow> (None, t) | Some m \<Rightarrow> k m t))"
proof -
  obtain r1 s1 where c: "checkFrame s p = (r1, s1)" by (cases "checkFrame s p") auto
  obtain r2 s2 where a: "handleAck s1 p = (r2, s2)" by (cases "handleAck s1 p") auto
  obtain r3 s3 where g: "handleSegment s2 p = (r3, s3)" by (cases "handleSegment s2 p") auto
  have calls: "calls s1 = calls s" "calls s2 = calls s1" "calls s3 = calls s2"
    using checkFrame_frame [OF c] handleAck_frame [OF a] handleSegment_frame [OF g] by auto
  show ?thesis
  proof (cases r1)
    case (Some e)
    with c show ?thesis
      by (simp add: handleBtpPacketWith_def handleBtpPacket_unfold andThen_def)
  next
    case n1: None
    show ?thesis
    proof (cases r2)
      case (Some e)
      with c a n1 show ?thesis
        by (simp add: handleBtpPacketWith_def handleBtpPacket_unfold andThen_def)
    next
      case n2: None
      show ?thesis
      proof (cases r3)
        case (Some e)
        with c a g n1 n2 show ?thesis
          by (simp add: handleBtpPacketWith_def handleBtpPacket_unfold andThen_def)
      next
        case None
        have "delivered s3 t = delivered s t" for t
          using calls by (simp add: delivered_def)
        with c a g n1 n2 None show ?thesis
          by (simp add: handleBtpPacketWith_def handleBtpPacket_unfold andThen_def
              handleEndingWith_handleEnding split: prod.splits option.splits)
      qed
    qed
  qed
qed

lemma inert_inbound:
  "queuedOutgoingMatterMessages (snd (handleIncomingBleData C s d)) = queuedOutgoingMatterMessages s
   \<and> filter isWriteBle (calls (snd (handleIncomingBleData C s d))) = filter isWriteBle (calls s)
   \<and> sequenceNumber (snd (handleIncomingBleData C s d)) = sequenceNumber s
   \<and> sendInProgress (snd (handleIncomingBleData C s d)) = sendInProgress s"
proof -
  obtain r t where h: "handleIncomingBleData_try C s d = (r, t)"
    by (cases "handleIncomingBleData_try C s d") auto
  from try_frame [OF h] have "sameOutbound s t"
    "filter isWriteBle (calls t) = filter isWriteBle (calls s)" by auto
  then show ?thesis using h
    by (cases r) (auto simp: handleIncomingBleData_unfold close_frame sameOutbound_def)
qed

text \<open>
  C10, as the claim states it, fails. This is the scenario of the test \<^verbatim>\<open>handles a
  correct One segment long Matter Message\<close>: the frame \<open>0d 00 00 09 00 01 .. 09\<close>
  completes a message, and the deliver callback calls \<^verbatim>\<open>sendMatterMessage\<close> with
  \<open>09 .. 01\<close> and does not wait for it. When \<^verbatim>\<open>handleIncomingBleData\<close> returns,
  \<^verbatim>\<open>writeBle\<close> has been invoked with \<open>0d 00 01 09 00 09 .. 01\<close>, the sequence number
  has gone from 0 to 1, and \<^verbatim>\<open>sendInProgress\<close> is set.
\<close>

lemma callback_sends_state:
  "handleIncomingBleDataWith
       (\<lambda>m t. (None, sendMatterMessage_started BtpCodec t [9, 8, 7, 6, 5, 4, 3, 2, 1]))
       BtpCodec (initialSession 20 6 [WriteBle [0x65, 0x6c, 0x04, 0x17, 0x00, 0x06]])
       [0x0d, 0x00, 0x00, 0x09, 0x00, 1, 2, 3, 4, 5, 6, 7, 8, 9]
     = (None, (initialSession 20 6
          [WriteBle [0x65, 0x6c, 0x04, 0x17, 0x00, 0x06],
           HandleMatterMessagePayload [1, 2, 3, 4, 5, 6, 7, 8, 9],
           WriteBle [0x0d, 0x00, 0x01, 0x09, 0x00, 9, 8, 7, 6, 5, 4, 3, 2, 1]])
        \<lparr> prevIncomingSequenceNumber := 0, prevIncomingAckNumber := 0,
          ackReceiveTimer := Timer_stop (Timer_start Timer_new),
          sendAckTimer := Timer_stop (Timer_start Timer_new),
          sequenceNumber := 1, prevAckedSequenceNumber := 0,
          queuedOutgoingMatterMessages :=
            [\<lparr> buffer = [9, 8, 7, 6, 5, 4, 3, 2, 1], offset = 15 \<rparr>],
          sendInProgress := True \<rparr>)"
  by (simp add: handleIncomingBleDataWith_def handleIncomingBleData_tryWith_def
      handleBtpPacketWith_def handleEndingWith_def sendMatterMessage_started_def
      checkFrame_def handleAck_def handleSegment_def andThen_def jsRem_def
      decodeHeader_def readUInt16_def outbound_simps Let_def)

theorem callback_sends_during_call:
  "fst (handleIncomingBleDataWith
       (\<lambda>m t. (None, sendMatterMessage_started BtpCodec t [9, 8, 7, 6, 5, 4, 3, 2, 1]))
       BtpCodec (initialSession 20 6 [WriteBle [0x65, 0x6c, 0x04, 0x17, 0x00, 0x06]])
       [0x0d, 0x00, 0x00, 0x09, 0x00, 1, 2, 3, 4, 5, 6, 7, 8, 9]) = None
   \<and> calls (snd (handleIncomingBleDataWith
       (\<lambda>m t. (None, sendMatterMessage_started BtpCodec t [9, 8, 7, 6, 5, 4, 3, 2, 1]))
       BtpCodec (initialSession 20 6 [WriteBle [0x65, 0x6c, 0x04, 0x17, 0x00, 0x06]])
       [0x0d, 0x00, 0x00, 0x09, 0x00, 1, 2, 3, 4, 5, 6, 7, 8, 9]))
     = [WriteBle [0x65, 0x6c, 0x04, 0x17, 0x00, 0x06],
        HandleMatterMessagePayload [1, 2, 3, 4, 5, 6, 7, 8, 9],
        WriteBle [0x0d, 0x00, 0x01, 0x09, 0x00, 9, 8, 7, 6, 5, 4, 3, 2, 1]]
   \<and> sequenceNumber (snd (handleIncomingBleDataWith
       (\<lambda>m t. (None, sendMatterMessage_started BtpCodec t [9, 8, 7, 6, 5, 4, 3, 2, 1]))
       BtpCodec (initialSession 20 6 [WriteBle [0x65, 0x6c, 0x04, 0x17, 0x00, 0x06]])
       [0x0d, 0x00, 0x00, 0x09, 0x00, 1, 2, 3, 4, 5, 6, 7, 8, 9])) = 1
   \<and> sequenceNumber (initialSession 20 6 [WriteBle [0x65, 0x6c, 0x04, 0x17, 0x00, 0x06]]) = 0
   \<and> sendInProgress (snd (handleIncomingBleDataWith
       (\<lambda>m t. (None, sendMatterMessage_started BtpCodec t [9, 8, 7, 6, 5, 4, 3, 2, 1]))
       BtpCodec (initialSession 20 6 [WriteBle [0x65, 0x6c, 0x04, 0x17, 0x00, 0x06]])
       [0x0d, 0x00, 0x00, 0x09, 0x00, 1, 2, 3, 4, 5, 6, 7, 8, 9]))"
  unfolding callback_sends_state by (simp add: initialSession_def)

text \<open>
  C10, amended. \<^verbatim>\<open>handleIncomingBleData\<close> does not write to the transport and does not
  touch the queue of outgoing messages itself; what is written during a call is written
  by the deliver callback. The call runs the callback as the last step of the \<^verbatim>\<open>try\<close>
  block, once, when the frame completes a message; with any callback the call is the call
  with the callback that returns at once, followed by the callback on the message handed
  over, and by the \<^verbatim>\<open>catch\<close> block if the callback throws. With the callback that
  returns at once, for every codec, session and buffer, no call of \<^verbatim>\<open>writeBle\<close> is
  added and the queue, the outgoing sequence number and \<^verbatim>\<open>sendInProgress\<close> are as
  before: a valid ack that opens the window again does not send what is queued.
\<close>

theorem inbound_writes_only_by_callback:
  "handleIncomingBleData_tryWith k C s d =
     (case handleIncomingBleData_try C s d of
        (Some e, t) \<Rightarrow> (Some e, t)
      | (None, t) \<Rightarrow> (case delivered s t of None \<Rightarrow> (None, t) | Some m \<Rightarrow> k m t))
   \<and> handleIncomingBleDataWith k C s d =
     (case handleIncomingBleData_tryWith k C s d of
        (None, t) \<Rightarrow> (None, t)
      | (Some e, t) \<Rightarrow> (if isBtpProtocolError e then None else Some e, close t))
   \<and> handleIncomingBleDataWith returnsAtOnce C s d = handleIncomingBleData C s d
   \<and> queuedOutgoingMatterMessages (snd (handleIncomingBleData C s d))
       = queuedOutgoingMatterMessages s
   \<and> filter isWriteBle (calls (snd (handleIncomingBleData C s d))) = filter isWriteBle (calls s)
   \<and> sequenceNumber (snd (handleIncomingBleData C s d)) = sequenceNumber s
   \<and> sendInProgress (snd (handleIncomingBleData C s d)) = sendInProgress s"
proof (intro conjI)
  show "handleIncomingBleData_tryWith k C s d =
     (case handleIncomingBleData_try C s d of
        (Some e, t) \<Rightarrow> (Some e, t)
      | (None, t) \<Rightarrow> (case delivered s t of None \<Rightarrow> (None, t) | Some m \<Rightarrow> k m t))"
    by (simp add: handleIncomingBleData_tryWith_def handleIncomingBleData_try_unfold
        handleBtpPacketWith_handleBtpPacket split: sum.splits)
  show "handleIncomingBleDataWith k C s d =
     (case handleIncomingBleData_tryWith k C s d of
        (None, t) \<Rightarrow> (None, t)
      | (Some e, t) \<Rightarrow> (if isBtpProtocolError e then None else Some e, close t))"
    by (simp add: handleIncomingBleDataWith_def split: prod.splits option.splits)
  show "handleIncomingBleDataWith returnsAtOnce C s d = handleIncomingBleData C s d"
    by (simp add: handleIncomingBleData_def)
qed (simp_all add: inert_inbound)

end
